theory Spec2Isabelle
  imports Complex_Main "HOL-Library.AList" "HOL-Library.Monad_Syntax"
begin

section \<open>Data model\<close>

text \<open>
  Values that \<open>json.loads\<close> can return and \<open>json.dumps\<close> can write. A Python dict is an
  association list in insertion order; \<open>map_of\<close> is the lookup and \<open>AList.update\<close> is the
  item assignment \<open>d[k] = v\<close> (replace in place when the key is there, append otherwise).
  Python floats are idealised as reals.
\<close>

datatype jval =
    JNull
  | JBool bool
  | JNum real
  | JStr string
  | JArr "jval list"
  | JObj "(string \<times> jval) list"

type_synonym pydict = "(string \<times> jval) list"

text \<open>
  The exceptions of the modelled code. \<open>ValueError\<close> carries its message and
  \<open>HTTPException\<close> its status code and detail.
\<close>

datatype error =
    ValueError string
  | KeyError string
  | TypeError
  | AttributeError
  | UnicodeDecodeError
  | RecursionError
  | OSError
  | OverflowError
  | HTTPException nat string

text \<open>
  What reading a file of the data directory with \<open>json.loads(path.read_text())\<close> does:
  \<open>Unparseable\<close>: the text is not JSON and \<open>json.loads\<close> raises \<open>JSONDecodeError\<close>;
  \<open>Unreadable e\<close>: the read raises another exception \<open>e\<close>, which none of the \<open>except\<close>
  clauses around the reads catches (\<open>UnicodeDecodeError\<close> for bytes that are not UTF-8,
  \<open>RecursionError\<close> for nesting that is too deep, an \<open>OSError\<close> such as a missing
  permission); \<open>Parsed v\<close>: it returns the value \<open>v\<close>. The directory maps file names to
  contents; a missing file is \<open>None\<close>. Since \<open>json.loads (json.dumps v) = v\<close> for the
  values of \<open>jval\<close>, a written file is stored as the value itself.
\<close>

datatype file_content = Unparseable | Unreadable error | Parsed jval

type_synonym fs = "string \<Rightarrow> file_content option"

text \<open>
  Python truthiness of a JSON value, and the numeric value of an operand of \<open>+\<close> and
  \<open>min\<close> (a bool counts as 0 or 1; any other non-number raises \<open>TypeError\<close>).
\<close>

fun truthy :: "jval \<Rightarrow> bool" where
  "truthy JNull = False"
| "truthy (JBool b) = b"
| "truthy (JNum r) = (r \<noteq> 0)"
| "truthy (JStr str) = (str \<noteq> [])"
| "truthy (JArr xs) = (xs \<noteq> [])"
| "truthy (JObj kvs) = (kvs \<noteq> [])"

fun as_number :: "jval \<Rightarrow> real option" where
  "as_number (JNum r) = Some r"
| "as_number (JBool b) = Some (if b then 1 else 0)"
| "as_number _ = None"

text \<open>
  An id in the file name \<open>f"{user_id}_{data_type}.json"\<close>: a string stands for itself and
  any other value for its \<open>str()\<close>, which is the parameter \<open>fmt\<close>.
\<close>

definition id_text :: "(jval \<Rightarrow> string) \<Rightarrow> jval \<Rightarrow> string" where
  "id_text fmt user_id = (case user_id of JStr str \<Rightarrow> str | _ \<Rightarrow> fmt user_id)"

section \<open>local\_storage.py\<close>

text \<open>\<open>_get_user_file\<close>: the file \<open>{user_id}_{data_type}.json\<close> of the data directory.\<close>

definition get_user_file :: "string \<Rightarrow> string \<Rightarrow> string" where
  "get_user_file user_id data_type = user_id @ ''_'' @ data_type @ ''.json''"

text \<open>
  \<open>_load_data\<close>: the empty list when the file is missing or raises \<open>JSONDecodeError\<close>
  (the two exceptions the function catches), the parsed value when there is one
  (whatever JSON value the file holds); any other exception of the read propagates.
\<close>

definition load_data :: "fs \<Rightarrow> string \<Rightarrow> string \<Rightarrow> error + jval" where
  "load_data s user_id data_type =
     (case s (get_user_file user_id data_type) of
        None \<Rightarrow> Inr (JArr [])
      | Some Unparseable \<Rightarrow> Inr (JArr [])
      | Some (Unreadable e) \<Rightarrow> Inl e
      | Some (Parsed v) \<Rightarrow> Inr v)"

text \<open>\<open>_save_data\<close>: overwrite the file with the dumped value.\<close>

definition save_data :: "fs \<Rightarrow> string \<Rightarrow> string \<Rightarrow> jval \<Rightarrow> fs" where
  "save_data s user_id data_type data = s(get_user_file user_id data_type \<mapsto> Parsed data)"

definition get_incomes :: "fs \<Rightarrow> string \<Rightarrow> error + jval" where
  "get_incomes s user_id = load_data s user_id ''incomes''"

definition get_expenses :: "fs \<Rightarrow> string \<Rightarrow> error + jval" where
  "get_expenses s user_id = load_data s user_id ''expenses''"

definition get_rules :: "fs \<Rightarrow> string \<Rightarrow> error + jval" where
  "get_rules s user_id = load_data s user_id ''rules''"

definition get_goals :: "fs \<Rightarrow> string \<Rightarrow> error + jval" where
  "get_goals s user_id = load_data s user_id ''goals''"

definition save_rules :: "fs \<Rightarrow> string \<Rightarrow> jval \<Rightarrow> fs" where
  "save_rules s user_id rules = save_data s user_id ''rules'' rules"

definition save_goals :: "fs \<Rightarrow> string \<Rightarrow> jval \<Rightarrow> fs" where
  "save_goals s user_id goals = save_data s user_id ''goals'' goals"

text \<open>
  The two assignments that \<open>add_income\<close>, \<open>add_expense\<close> and the bulk variants make on a
  record before storing it: \<open>rec["user_id"] = user_id\<close>, then \<open>created_at\<close> when the key is
  not in the dict. \<open>now\<close> is the value of \<open>datetime.now().isoformat()\<close>.
\<close>

definition set_user_id :: "string \<Rightarrow> pydict \<Rightarrow> pydict" where
  "set_user_id user_id r = AList.update ''user_id'' (JStr user_id) r"

definition default_created_at :: "string \<Rightarrow> pydict \<Rightarrow> pydict" where
  "default_created_at now r =
     (if map_of r ''created_at'' = None then AList.update ''created_at'' (JStr now) r else r)"

text \<open>
  \<open>add_income\<close>: load the list, stamp the record, append, save, return the record.
  An exception of the load propagates; \<open>incomes.append\<close> raises \<open>AttributeError\<close> when
  the loaded value is not a list. Nothing has been written in either case.
\<close>

definition add_income :: "fs \<Rightarrow> string \<Rightarrow> string \<Rightarrow> pydict \<Rightarrow> error + (pydict \<times> fs)" where
  "add_income s now user_id income =
     (case get_incomes s user_id of
        Inl e \<Rightarrow> Inl e
      | Inr incomes \<Rightarrow>
          (let income' = default_created_at now (set_user_id user_id income)
           in case incomes of
                JArr xs \<Rightarrow>
                  Inr (income', save_data s user_id ''incomes'' (JArr (xs @ [JObj income'])))
              | _ \<Rightarrow> Inl AttributeError))"

definition add_expense :: "fs \<Rightarrow> string \<Rightarrow> string \<Rightarrow> pydict \<Rightarrow> error + (pydict \<times> fs)" where
  "add_expense s now user_id expense =
     (case get_expenses s user_id of
        Inl e \<Rightarrow> Inl e
      | Inr expenses \<Rightarrow>
          (let expense' = default_created_at now (set_user_id user_id expense)
           in case expenses of
                JArr xs \<Rightarrow>
                  Inr (expense', save_data s user_id ''expenses'' (JArr (xs @ [JObj expense'])))
              | _ \<Rightarrow> Inl AttributeError))"

text \<open>
  \<open>add_incomes_bulk\<close>: nothing happens on an empty input. Otherwise every record is stamped
  in turn (\<open>clock i\<close> is what \<open>datetime.now().isoformat()\<close> returns while the record at
  index \<open>i\<close> is handled), the stored list is extended with them and saved once; the result
  is the number of input records.
\<close>

definition stamp_all :: "(nat \<Rightarrow> string) \<Rightarrow> string \<Rightarrow> pydict list \<Rightarrow> pydict list" where
  "stamp_all clock user_id rs =
     map (\<lambda>(i, r). default_created_at (clock i) (set_user_id user_id r)) (enumerate 0 rs)"

definition add_incomes_bulk ::
  "fs \<Rightarrow> (nat \<Rightarrow> string) \<Rightarrow> string \<Rightarrow> pydict list \<Rightarrow> error + (nat \<times> fs)" where
  "add_incomes_bulk s clock user_id new_incomes =
     (if new_incomes = [] then Inr (0, s)
      else
        (case get_incomes s user_id of
           Inl e \<Rightarrow> Inl e
         | Inr incomes \<Rightarrow>
             (let new_incomes' = stamp_all clock user_id new_incomes
              in case incomes of
                   JArr xs \<Rightarrow>
                     Inr (length new_incomes',
                          save_data s user_id ''incomes'' (JArr (xs @ map JObj new_incomes')))
                 | _ \<Rightarrow> Inl AttributeError)))"

definition add_expenses_bulk ::
  "fs \<Rightarrow> (nat \<Rightarrow> string) \<Rightarrow> string \<Rightarrow> pydict list \<Rightarrow> error + (nat \<times> fs)" where
  "add_expenses_bulk s clock user_id new_expenses =
     (if new_expenses = [] then Inr (0, s)
      else
        (case get_expenses s user_id of
           Inl e \<Rightarrow> Inl e
         | Inr expenses \<Rightarrow>
             (let new_expenses' = stamp_all clock user_id new_expenses
              in case expenses of
                   JArr xs \<Rightarrow>
                     Inr (length new_expenses',
                          save_data s user_id ''expenses'' (JArr (xs @ map JObj new_expenses')))
                 | _ \<Rightarrow> Inl AttributeError)))"

text \<open>
  \<open>i.get("id")\<close> on a stored element: \<open>None\<close> when the dict has no such key;
  \<open>AttributeError\<close> when the element is not a dict.
\<close>

fun get_id :: "jval \<Rightarrow> error + jval" where
  "get_id (JObj kvs) = Inr (case map_of kvs ''id'' of None \<Rightarrow> JNull | Some v \<Rightarrow> v)"
| "get_id _ = Inl AttributeError"

text \<open>
  The comprehension \<open>[i for i in incomes if i.get("id") != income_id]\<close> over a list: it
  raises at the first element that is not a dict.
\<close>

fun keep_others :: "string \<Rightarrow> jval list \<Rightarrow> error + jval list" where
  "keep_others rid [] = Inr []"
| "keep_others rid (x # xs) =
     (case get_id x of
        Inl e \<Rightarrow> Inl e
      | Inr v \<Rightarrow>
          (case keep_others rid xs of
             Inl e \<Rightarrow> Inl e
           | Inr ys \<Rightarrow> Inr (if v \<noteq> JStr rid then x # ys else ys)))"

text \<open>
  \<open>delete_income\<close>: filter the loaded list by id; save and return \<open>True\<close> when the list got
  shorter, otherwise return \<open>False\<close> without writing. When the file holds a JSON value
  that is not a list: \<open>len\<close> raises \<open>TypeError\<close> on null, a number or a boolean; a
  non-empty object or string is iterated and its first item (a string) has no \<open>get\<close>;
  an empty one gives the empty list, which is not shorter.
\<close>

definition delete_income :: "fs \<Rightarrow> string \<Rightarrow> string \<Rightarrow> error + (bool \<times> fs)" where
  "delete_income s user_id income_id =
     (case get_incomes s user_id of
        Inl e \<Rightarrow> Inl e
      | Inr (JArr xs) \<Rightarrow>
          (case keep_others income_id xs of
             Inl e \<Rightarrow> Inl e
           | Inr ys \<Rightarrow>
               if length ys < length xs
               then Inr (True, save_data s user_id ''incomes'' (JArr ys))
               else Inr (False, s))
      | Inr (JObj kvs) \<Rightarrow> if kvs = [] then Inr (False, s) else Inl AttributeError
      | Inr (JStr str) \<Rightarrow> if str = [] then Inr (False, s) else Inl AttributeError
      | Inr _ \<Rightarrow> Inl TypeError)"

definition delete_expense :: "fs \<Rightarrow> string \<Rightarrow> string \<Rightarrow> error + (bool \<times> fs)" where
  "delete_expense s user_id expense_id =
     (case get_expenses s user_id of
        Inl e \<Rightarrow> Inl e
      | Inr (JArr xs) \<Rightarrow>
          (case keep_others expense_id xs of
             Inl e \<Rightarrow> Inl e
           | Inr ys \<Rightarrow>
               if length ys < length xs
               then Inr (True, save_data s user_id ''expenses'' (JArr ys))
               else Inr (False, s))
      | Inr (JObj kvs) \<Rightarrow> if kvs = [] then Inr (False, s) else Inl AttributeError
      | Inr (JStr str) \<Rightarrow> if str = [] then Inr (False, s) else Inl AttributeError
      | Inr _ \<Rightarrow> Inl TypeError)"

text \<open>Predicates on stored elements, used in the statements below.\<close>

fun is_dict :: "jval \<Rightarrow> bool" where
  "is_dict (JObj kvs) = True"
| "is_dict _ = False"

text \<open>The element is a dict whose \<open>id\<close> is the string \<open>rid\<close>.\<close>

fun has_id :: "string \<Rightarrow> jval \<Rightarrow> bool" where
  "has_id rid (JObj kvs) = (map_of kvs ''id'' = Some (JStr rid))"
| "has_id rid _ = False"

text \<open>The element is a dict whose \<open>user_id\<close> is the string \<open>u\<close>.\<close>

fun owned_by :: "string \<Rightarrow> jval \<Rightarrow> bool" where
  "owned_by u (JObj kvs) = (map_of kvs ''user_id'' = Some (JStr u))"
| "owned_by u _ = False"

section \<open>local\_auth.py\<close>

text \<open>
  Strings are lists of 8-bit characters, read as the code points 0 to 255. On these,
  \<open>str.lower\<close> moves \<open>A\<close>-\<open>Z\<close> and the upper-case letters of Latin-1 (192-214, 216-222)
  up by 32 (all of them have bit 5 clear, so this sets bit 5), and \<open>str.strip\<close> removes from both ends the characters for which
  \<open>str.isspace\<close> holds (9-13, 28-32, 133, 160).
\<close>

definition code_point :: "char \<Rightarrow> nat" where
  "code_point c = of_char c"

definition lower_char :: "char \<Rightarrow> char" where
  "lower_char c =
     (let n = code_point c
      in if (65 \<le> n \<and> n \<le> 90) \<or> (192 \<le> n \<and> n \<le> 214) \<or> (216 \<le> n \<and> n \<le> 222)
         then (case c of Char b0 b1 b2 b3 b4 b5 b6 b7 \<Rightarrow> Char b0 b1 b2 b3 b4 True b6 b7)
         else c)"

definition py_lower :: "string \<Rightarrow> string" where
  "py_lower str = map lower_char str"

definition is_space :: "char \<Rightarrow> bool" where
  "is_space c =
     (let n = code_point c
      in (9 \<le> n \<and> n \<le> 13) \<or> (28 \<le> n \<and> n \<le> 32) \<or> n = 133 \<or> n = 160)"

definition py_strip :: "string \<Rightarrow> string" where
  "py_strip str = rev (dropWhile is_space (rev (dropWhile is_space str)))"

text \<open>\<open>s.startswith(p)\<close>, \<open>s.endswith(p)\<close> and \<open>p in s\<close> on strings.\<close>

fun starts_with :: "string \<Rightarrow> string \<Rightarrow> bool" where
  "starts_with str [] = True"
| "starts_with [] (p # ps) = False"
| "starts_with (c # str) (p # ps) = (c = p \<and> starts_with str ps)"

definition ends_with :: "string \<Rightarrow> string \<Rightarrow> bool" where
  "ends_with str p = starts_with (rev str) (rev p)"

fun contains :: "string \<Rightarrow> string \<Rightarrow> bool" where
  "contains [] p = (p = [])"
| "contains (c # str) p = (starts_with (c # str) p \<or> contains str p)"

text \<open>The character classes of the email pattern.\<close>

definition is_alpha :: "char \<Rightarrow> bool" where
  "is_alpha c = (let n = code_point c in (65 \<le> n \<and> n \<le> 90) \<or> (97 \<le> n \<and> n \<le> 122))"

definition is_alnum :: "char \<Rightarrow> bool" where
  "is_alnum c = (is_alpha c \<or> (let n = code_point c in 48 \<le> n \<and> n \<le> 57))"

definition local_char :: "char \<Rightarrow> bool" where
  "local_char c = (is_alnum c \<or> c \<in> set ''._%+-'')"

definition domain_char :: "char \<Rightarrow> bool" where
  "domain_char c = (is_alnum c \<or> c \<in> set ''.-'')"

text \<open>
  \<open>re.match\<close> of the pattern \<open>^[a-zA-Z0-9._%+-]+@[a-zA-Z0-9.-]+\.[a-zA-Z]{2,}$\<close>. Neither
  class contains \<open>@\<close>, so the local part is the text before the first \<open>@\<close>; the last
  group contains no dot, so it is the text after the last dot of the rest. A match
  therefore exists exactly when: the text before the first \<open>@\<close> is non-empty and made of
  local characters, an \<open>@\<close> follows, and the rest splits at its last dot into a non-empty
  run of domain characters and at least two letters. \<open>$\<close> also matches before one
  final newline.
\<close>

definition match_to_end :: "string \<Rightarrow> bool" where
  "match_to_end str =
     (let local = takeWhile (\<lambda>c. c \<noteq> CHR ''@'') str;
          rest = dropWhile (\<lambda>c. c \<noteq> CHR ''@'') str
      in local \<noteq> [] \<and> list_all local_char local \<and> rest \<noteq> [] \<and>
         (let d = tl rest;
              tld = rev (takeWhile (\<lambda>c. c \<noteq> CHR ''.'') (rev d));
              front = rev (dropWhile (\<lambda>c. c \<noteq> CHR ''.'') (rev d))
          in front \<noteq> [] \<and> butlast front \<noteq> [] \<and> list_all domain_char (butlast front) \<and>
             2 \<le> length tld \<and> list_all is_alpha tld))"

definition email_pattern_match :: "string \<Rightarrow> bool" where
  "email_pattern_match str =
     (match_to_end str \<or> (str \<noteq> [] \<and> last str = CHR 0x0A \<and> match_to_end (butlast str)))"

definition VALID_EMAIL_DOMAINS :: "string list" where
  "VALID_EMAIL_DOMAINS =
     [''gmail.com'', ''googlemail.com'',
      ''yahoo.com'', ''yahoo.in'', ''yahoo.co.in'',
      ''outlook.com'', ''hotmail.com'', ''live.com'', ''msn.com'',
      ''icloud.com'', ''me.com'', ''mac.com'',
      ''protonmail.com'', ''proton.me'',
      ''aol.com'',
      ''zoho.com'', ''zohomail.in'',
      ''mail.com'',
      ''gmx.com'', ''gmx.net'',
      ''yandex.com'', ''yandex.ru'',
      ''rediffmail.com'', ''rediff.com'',
      ''in.com'',
      ''edu'', ''ac.in'', ''edu.in'']"

text \<open>
  The list \<open>suspicious_patterns\<close>. All eight entries are \<open>str\<close> objects (the first two are
  raw string literals), so the loop takes the branch \<open>pattern in domain\<close> for each of
  them and never calls \<open>re.match\<close>.
\<close>

definition suspicious_patterns :: "string list" where
  "suspicious_patterns =
     [''^[a-z]{10,}'' @ [CHR 0x5C] @ ''.com$'',
      ''^[a-z]+[0-9]+[a-z]+'' @ [CHR 0x5C] @ ''.com$'',
      ''temp'', ''fake'', ''test'', ''example'', ''random'', ''asdf'']"

text \<open>
  \<open>validate_email\<close>. \<open>email.split('@')[1]\<close> is the text between the first and the second
  \<open>@\<close> (or the end).
\<close>

definition validate_email :: "string \<Rightarrow> bool \<times> string" where
  "validate_email email0 =
     (let email = py_strip (py_lower email0)
      in if \<not> email_pattern_match email then (False, ''Invalid email format'')
         else
           let domain = takeWhile (\<lambda>c. c \<noteq> CHR ''@'') (tl (dropWhile (\<lambda>c. c \<noteq> CHR ''@'') email));
               domain_valid0 = (domain \<in> set VALID_EMAIL_DOMAINS);
               domain_valid1 =
                 (domain_valid0 \<or>
                  list_ex (\<lambda>valid_domain. ends_with domain (''.'' @ valid_domain)
                                           \<or> domain = valid_domain) VALID_EMAIL_DOMAINS);
               domain_valid =
                 (domain_valid1 \<and> \<not> list_ex (\<lambda>pattern. contains domain pattern) suspicious_patterns)
           in if \<not> domain_valid
              then (False, ''Please use a valid email provider (gmail.com, yahoo.com, outlook.com, etc.)'')
              else (True, []))"

text \<open>
  The users file. \<open>_ensure_data_dir\<close> creates it with \<open>{}\<close> when it is missing;
  \<open>_load_users\<close> returns the parsed value, or \<open>{}\<close> when the read raises
  \<open>JSONDecodeError\<close> or \<open>FileNotFoundError\<close>, and lets any other exception of the read
  propagate; the second component is the directory as \<open>_ensure_data_dir\<close> left it.
\<close>

definition ensure_data_dir :: "fs \<Rightarrow> fs" where
  "ensure_data_dir s = (if s ''users.json'' = None then s(''users.json'' \<mapsto> Parsed (JObj [])) else s)"

definition load_users :: "fs \<Rightarrow> (error + jval) \<times> fs" where
  "load_users s =
     (let s1 = ensure_data_dir s
      in (case s1 ''users.json'' of
            Some (Parsed v) \<Rightarrow> Inr v
          | Some (Unreadable e) \<Rightarrow> Inl e
          | _ \<Rightarrow> Inr (JObj []), s1))"

definition save_users :: "fs \<Rightarrow> jval \<Rightarrow> fs" where
  "save_users s users = (ensure_data_dir s)(''users.json'' \<mapsto> Parsed users)"

section \<open>auth.py: the token registry\<close>

text \<open>
  \<open>_load_tokens\<close>: \<open>{}\<close> when the file is missing or the read raises \<open>JSONDecodeError\<close>
  or \<open>FileNotFoundError\<close>; any other exception of the read propagates.
\<close>

definition load_tokens :: "fs \<Rightarrow> error + jval" where
  "load_tokens s =
     (case s ''tokens.json'' of
        Some (Parsed v) \<Rightarrow> Inr v
      | Some (Unreadable e) \<Rightarrow> Inl e
      | _ \<Rightarrow> Inr (JObj []))"

definition save_tokens :: "fs \<Rightarrow> jval \<Rightarrow> fs" where
  "save_tokens s tokens = s(''tokens.json'' \<mapsto> Parsed tokens)"

text \<open>
  \<open>register_local_token\<close>: an exception of the load propagates; \<open>tokens[token] = email\<close>
  raises \<open>TypeError\<close> when the loaded value is not a dict; nothing is written then.
\<close>

definition register_local_token :: "fs \<Rightarrow> string \<Rightarrow> string \<Rightarrow> error + fs" where
  "register_local_token s token email =
     (case load_tokens s of
        Inl e \<Rightarrow> Inl e
      | Inr (JObj kvs) \<Rightarrow> Inr (save_tokens s (JObj (AList.update token (JStr email) kvs)))
      | Inr _ \<Rightarrow> Inl TypeError)"

section \<open>local\_auth.py: signup, login, mark\_account\_active\<close>

text \<open>
  \<open>email in users\<close> on the loaded value: key membership for a dict, element membership
  for a list, substring for a string, \<open>TypeError\<close> otherwise.
\<close>

fun py_in :: "string \<Rightarrow> jval \<Rightarrow> error + bool" where
  "py_in email (JObj kvs) = Inr (map_of kvs email \<noteq> None)"
| "py_in email (JArr xs) = Inr (JStr email \<in> set xs)"
| "py_in email (JStr str) = Inr (contains str email)"
| "py_in email _ = Inl TypeError"

text \<open>
  \<open>signup\<close>. The values drawn inside the function are inputs of the model: \<open>user_id\<close>
  (\<open>secrets.token_hex(16)\<close>), \<open>salt\<close> (\<open>secrets.token_hex(16)\<close>), \<open>token\<close>
  (\<open>secrets.token_urlsafe(32)\<close>) and \<open>now\<close> (\<open>datetime.utcnow().isoformat()\<close>);
  \<open>kdf password salt\<close> is the hex digest of PBKDF2-HMAC-SHA256 with 100000 iterations.
  The result is the returned dict or the exception raised, with the data directory as the
  call left it.
\<close>

definition signup ::
  "(string \<Rightarrow> string \<Rightarrow> string) \<Rightarrow> fs \<Rightarrow> string \<Rightarrow> string \<Rightarrow> string \<Rightarrow> string \<Rightarrow>
   string \<Rightarrow> string \<Rightarrow> string \<Rightarrow> (error + pydict) \<times> fs" where
  "signup kdf s user_id salt token now email0 password full_name =
     (let email = py_strip (py_lower email0);
          (is_valid, err) = validate_email email
      in if \<not> is_valid then (Inl (ValueError err), s)
         else if length password < 6
         then (Inl (ValueError ''Password must be at least 6 characters''), s)
         else if full_name = [] \<or> length (py_strip full_name) < 2
         then (Inl (ValueError ''Please enter your full name''), s)
         else
           let (loaded, s1) = load_users s
           in case loaded of
                Inl e \<Rightarrow> (Inl e, s1)
              | Inr users \<Rightarrow>
           (case py_in email users of
                Inl e \<Rightarrow> (Inl e, s1)
              | Inr True \<Rightarrow> (Inl (ValueError ''An account with this email already exists''), s1)
              | Inr False \<Rightarrow>
                  (case register_local_token s1 token email of
                     Inl e \<Rightarrow> (Inl e, s1)
                   | Inr s2 \<Rightarrow>
                       (case users of
                          JObj kvs \<Rightarrow>
                            (Inr [(''access_token'', JStr token),
                                  (''user'', JObj [(''id'', JStr user_id),
                                                   (''email'', JStr email),
                                                   (''full_name'', JStr (py_strip full_name)),
                                                   (''isNewAccount'', JBool True)]),
                                  (''message'', JStr ''Account created successfully'')],
                             save_users s2
                               (JObj (AList.update email
                                  (JObj [(''id'', JStr user_id),
                                         (''email'', JStr email),
                                         (''full_name'', JStr (py_strip full_name)),
                                         (''password_hash'', JStr (kdf password salt)),
                                         (''password_salt'', JStr salt),
                                         (''created_at'', JStr now),
                                         (''is_new_account'', JBool True)]) kvs)))
                        | _ \<Rightarrow> (Inl TypeError, s2)))))"

text \<open>\<open>d.get(k, default)\<close> on a dict.\<close>

definition dict_get :: "pydict \<Rightarrow> string \<Rightarrow> jval \<Rightarrow> jval" where
  "dict_get d k dflt = (case map_of d k of None \<Rightarrow> dflt | Some v \<Rightarrow> v)"

text \<open>
  The dict that \<open>login\<close> returns; the subscripts \<open>user["id"]\<close>, \<open>user["email"]\<close>,
  \<open>user["full_name"]\<close> raise \<open>KeyError\<close> in that order.
\<close>

definition login_result :: "string \<Rightarrow> pydict \<Rightarrow> error + pydict" where
  "login_result token user =
     (let is_new = dict_get user ''is_new_account'' (JBool False);
          is_admin = dict_get user ''is_admin'' (JBool False)
      in case map_of user ''id'' of
           None \<Rightarrow> Inl (KeyError ''id'')
         | Some uid \<Rightarrow>
             (case map_of user ''email'' of
                None \<Rightarrow> Inl (KeyError ''email'')
              | Some em \<Rightarrow>
                  (case map_of user ''full_name'' of
                     None \<Rightarrow> Inl (KeyError ''full_name'')
                   | Some fname \<Rightarrow>
                       Inr [(''access_token'', JStr token),
                            (''user'', JObj [(''id'', uid), (''email'', em), (''full_name'', fname),
                                             (''isNewAccount'', is_new),
                                             (''isAdmin'', is_admin)])])))"

text \<open>
  The salt that \<open>_hash_password(password, salt)\<close> uses: the given one; a freshly drawn one
  when the given salt is \<open>None\<close>; \<open>salt.encode()\<close> raises \<open>AttributeError\<close> on any other
  value that is not a string.
\<close>

fun salt_used :: "string \<Rightarrow> jval \<Rightarrow> string option" where
  "salt_used fresh_salt (JStr salt) = Some salt"
| "salt_used fresh_salt JNull = Some fresh_salt"
| "salt_used fresh_salt _ = None"

text \<open>
  \<open>login\<close>. \<open>token\<close> is the value \<open>secrets.token_urlsafe(32)\<close> returns and \<open>fresh_salt\<close>
  the value \<open>secrets.token_hex(16)\<close> would return. \<open>users[email]\<close> and
  \<open>user["password_salt"]\<close> raise \<open>TypeError\<close> on a value that is not a dict.
\<close>

definition login ::
  "(string \<Rightarrow> string \<Rightarrow> string) \<Rightarrow> fs \<Rightarrow> string \<Rightarrow> string \<Rightarrow> string \<Rightarrow> string \<Rightarrow>
   (error + pydict) \<times> fs" where
  "login kdf s fresh_salt token email0 password =
     (let email = py_strip (py_lower email0);
          (loaded, s1) = load_users s
      in case loaded of
           Inl e \<Rightarrow> (Inl e, s1)
         | Inr users \<Rightarrow>
      (case py_in email users of
           Inl e \<Rightarrow> (Inl e, s1)
         | Inr False \<Rightarrow> (Inl (ValueError ''Invalid email or password''), s1)
         | Inr True \<Rightarrow>
             (case users of
                JObj kvs \<Rightarrow>
                  (case map_of kvs email of
                     None \<Rightarrow> (Inl (KeyError email), s1)
                   | Some (JObj user) \<Rightarrow>
                       (case map_of user ''password_salt'' of
                          None \<Rightarrow> (Inl (KeyError ''password_salt''), s1)
                        | Some sv \<Rightarrow>
                            (case salt_used fresh_salt sv of
                               None \<Rightarrow> (Inl AttributeError, s1)
                             | Some salt \<Rightarrow>
                                 (case map_of user ''password_hash'' of
                                    None \<Rightarrow> (Inl (KeyError ''password_hash''), s1)
                                  | Some h \<Rightarrow>
                                      if JStr (kdf password salt) \<noteq> h
                                      then (Inl (ValueError ''Invalid email or password''), s1)
                                      else
                                        (case register_local_token s1 token email of
                                           Inl e \<Rightarrow> (Inl e, s1)
                                         | Inr s2 \<Rightarrow> (login_result token user, s2)))))
                   | Some _ \<Rightarrow> (Inl TypeError, s1))
              | _ \<Rightarrow> (Inl TypeError, s1))))"

text \<open>
  \<open>mark_account_active\<close>: sets \<open>is_new_account\<close> of the account to \<open>False\<close> and saves, when
  the email is registered; otherwise nothing is written. No function of the repository
  calls it.
\<close>

definition mark_account_active :: "fs \<Rightarrow> string \<Rightarrow> error option \<times> fs" where
  "mark_account_active s email0 =
     (let email = py_strip (py_lower email0);
          (loaded, s1) = load_users s
      in case loaded of
           Inl e \<Rightarrow> (Some e, s1)
         | Inr users \<Rightarrow>
      (case py_in email users of
           Inl e \<Rightarrow> (Some e, s1)
         | Inr False \<Rightarrow> (None, s1)
         | Inr True \<Rightarrow>
             (case users of
                JObj kvs \<Rightarrow>
                  (case map_of kvs email of
                     Some (JObj user) \<Rightarrow>
                       (None, save_users s1
                          (JObj (AList.update email
                             (JObj (AList.update ''is_new_account'' (JBool False) user)) kvs)))
                   | _ \<Rightarrow> (Some TypeError, s1))
              | _ \<Rightarrow> (Some TypeError, s1))))"

section \<open>auth.py: get\_current\_user\<close>

definition DEMO_USER :: pydict where
  "DEMO_USER = [(''id'', JStr ''demo-user-001''), (''email'', JStr ''rahul@demo.com''),
                (''full_name'', JStr ''Rahul Kumar''), (''is_demo'', JBool True)]"

text \<open>
  \<open>users.get(email)\<close> with the value found in the token registry as key: a string is
  looked up; a list or dict is unhashable (\<open>TypeError\<close>); any other value is not among
  the keys of a parsed JSON object.
\<close>

fun users_get :: "pydict \<Rightarrow> jval \<Rightarrow> error + jval" where
  "users_get kvs (JStr email) = Inr (dict_get kvs email JNull)"
| "users_get kvs (JArr xs) = Inl TypeError"
| "users_get kvs (JObj d) = Inl TypeError"
| "users_get kvs _ = Inr JNull"

text \<open>
  \<open>get_current_user\<close> with local authentication (\<open>USE_LOCAL_AUTH\<close> true, no external
  database configured). \<open>credentials\<close> is \<open>None\<close> when the request carries no bearer
  credential, otherwise the token. An exception of either load propagates.
  \<open>tokens.get\<close> and \<open>users.get\<close> raise \<open>AttributeError\<close> on a loaded value that is not
  a dict; \<open>user_data["id"]\<close> raises \<open>TypeError\<close> on a truthy value that is not a dict.
\<close>

definition get_current_user :: "fs \<Rightarrow> string option \<Rightarrow> (error + pydict) \<times> fs" where
  "get_current_user s credentials =
     (case credentials of
        None \<Rightarrow> (Inl (HTTPException 401 ''Not authenticated''), s)
      | Some token \<Rightarrow>
          if token = ''demo-token'' then (Inr DEMO_USER, s)
          else if length token > 20
          then
            (case load_tokens s of
               Inl e \<Rightarrow> (Inl e, s)
             | Inr (JObj tokens) \<Rightarrow>
                 (let email = dict_get tokens token JNull
                  in if truthy email
                     then
                       (let (loaded, s1) = load_users s
                        in case loaded of
                             Inl e \<Rightarrow> (Inl e, s1)
                           | Inr (JObj kvs) \<Rightarrow>
                               (case users_get kvs email of
                                  Inl e \<Rightarrow> (Inl e, s1)
                                | Inr user_data \<Rightarrow>
                                    if truthy user_data
                                    then
                                      (case user_data of
                                         JObj ud \<Rightarrow>
                                           (case map_of ud ''id'' of
                                              None \<Rightarrow> (Inl (KeyError ''id''), s1)
                                            | Some uid \<Rightarrow>
                                                (Inr [(''id'', uid),
                                                      (''email'', email),
                                                      (''full_name'',
                                                         dict_get ud ''full_name'' (JStr ''User'')),
                                                      (''is_demo'', JBool False),
                                                      (''is_new_account'',
                                                         dict_get ud ''is_new_account'' (JBool False)),
                                                      (''is_admin'',
                                                         dict_get ud ''is_admin'' (JBool False))],
                                                 s1))
                                       | _ \<Rightarrow> (Inl TypeError, s1))
                                    else (Inl (HTTPException 401 ''Invalid or expired token''), s1))
                           | Inr _ \<Rightarrow> (Inl AttributeError, s1))
                     else (Inl (HTTPException 401 ''Invalid or expired token''), s))
             | Inr _ \<Rightarrow> (Inl AttributeError, s))
          else (Inl (HTTPException 401 ''Invalid token format''), s))"

section \<open>routes/goals.py\<close>

text \<open>
  The assignment
  \<open>g["current_amount"] = min(g["current_amount"] + body.amount, g["target_amount"])\<close>
  on a goal dict, in the order Python evaluates it. \<open>min (a, b)\<close> is \<open>b\<close> when
  \<open>b < a\<close> and \<open>a\<close> otherwise.
\<close>

definition contribute :: "real \<Rightarrow> pydict \<Rightarrow> error + pydict" where
  "contribute amount g =
     (case map_of g ''current_amount'' of
        None \<Rightarrow> Inl (KeyError ''current_amount'')
      | Some cv \<Rightarrow>
          (case as_number cv of
             None \<Rightarrow> Inl TypeError
           | Some c \<Rightarrow>
               (case map_of g ''target_amount'' of
                  None \<Rightarrow> Inl (KeyError ''target_amount'')
                | Some tv \<Rightarrow>
                    (case as_number tv of
                       None \<Rightarrow> Inl TypeError
                     | Some t \<Rightarrow>
                         Inr (AList.update ''current_amount''
                                (if t < c + amount then tv else JNum (c + amount)) g)))))"

text \<open>
  The loop \<open>for g in goals: if g["id"] == goal_id: ...; return g\<close> of the local branch.
  \<open>None\<close> means the loop ended without a match; otherwise the updated goal and the list
  with that goal updated in place. \<open>g["id"]\<close> raises \<open>KeyError\<close> on a dict without the
  key and \<open>TypeError\<close> on an element that is not a dict.
\<close>

fun find_and_add :: "string \<Rightarrow> real \<Rightarrow> jval list \<Rightarrow> error + (pydict \<times> jval list) option" where
  "find_and_add goal_id amount [] = Inr None"
| "find_and_add goal_id amount (g # gs) =
     (case g of
        JObj kvs \<Rightarrow>
          (case map_of kvs ''id'' of
             None \<Rightarrow> Inl (KeyError ''id'')
           | Some v \<Rightarrow>
               if v = JStr goal_id
               then (case contribute amount kvs of
                       Inl e \<Rightarrow> Inl e
                     | Inr g' \<Rightarrow> Inr (Some (g', JObj g' # gs)))
               else (case find_and_add goal_id amount gs of
                       Inl e \<Rightarrow> Inl e
                     | Inr None \<Rightarrow> Inr None
                     | Inr (Some (g', gs')) \<Rightarrow> Inr (Some (g', g # gs'))))
      | _ \<Rightarrow> Inl TypeError)"

text \<open>
  The loop of the demo branch over the in-memory list \<open>_demo_goals\<close>, which also compares
  \<open>g["user_id"]\<close> with \<open>user["id"]\<close> (only when the id matched: \<open>and\<close> short-circuits).
  \<open>uid\<close> is \<open>user["id"]\<close>, \<open>None\<close> when the identity has no such key.
\<close>

fun find_and_add_demo ::
  "string \<Rightarrow> jval option \<Rightarrow> real \<Rightarrow> jval list \<Rightarrow> error + (pydict \<times> jval list) option" where
  "find_and_add_demo goal_id uid amount [] = Inr None"
| "find_and_add_demo goal_id uid amount (g # gs) =
     (case g of
        JObj kvs \<Rightarrow>
          (case map_of kvs ''id'' of
             None \<Rightarrow> Inl (KeyError ''id'')
           | Some v \<Rightarrow>
               if v = JStr goal_id
               then (case map_of kvs ''user_id'' of
                       None \<Rightarrow> Inl (KeyError ''user_id'')
                     | Some w \<Rightarrow>
                         (case uid of
                            None \<Rightarrow> Inl (KeyError ''id'')
                          | Some u \<Rightarrow>
                              if w = u
                              then (case contribute amount kvs of
                                      Inl e \<Rightarrow> Inl e
                                    | Inr g' \<Rightarrow> Inr (Some (g', JObj g' # gs)))
                              else (case find_and_add_demo goal_id uid amount gs of
                                      Inl e \<Rightarrow> Inl e
                                    | Inr None \<Rightarrow> Inr None
                                    | Inr (Some (g', gs')) \<Rightarrow> Inr (Some (g', g # gs')))))
               else (case find_and_add_demo goal_id uid amount gs of
                       Inl e \<Rightarrow> Inl e
                     | Inr None \<Rightarrow> Inr None
                     | Inr (Some (g', gs')) \<Rightarrow> Inr (Some (g', g # gs'))))
      | _ \<Rightarrow> Inl TypeError)"

text \<open>
  \<open>add_money\<close>, in the configuration without an external database (\<open>_USE_LOCAL\<close> true).
  The state is the data directory and the in-memory list \<open>_demo_goals\<close> as it is after
  \<open>_seed_demo_goals()\<close>. \<open>amount\<close> is \<open>body.amount\<close>, which the request model
  \<open>AddMoneyRequest\<close> accepts only when it is greater than 0. \<open>user\<close> is the identity dict;
  its \<open>id\<close> is a string in every identity the resolver returns, another value is reported
  as \<open>TypeError\<close>. Iterating a stored value that is not a list: null, numbers and booleans
  raise \<open>TypeError\<close>, a non-empty object or string yields strings, on which \<open>g["id"]\<close>
  raises \<open>TypeError\<close>, and an empty one ends the loop at once.
\<close>

definition add_money ::
  "fs \<Rightarrow> jval list \<Rightarrow> string \<Rightarrow> real \<Rightarrow> pydict \<Rightarrow> error + (pydict \<times> fs \<times> jval list)" where
  "add_money s demo_goals goal_id amount user =
     (if truthy (case map_of user ''is_demo'' of None \<Rightarrow> JNull | Some v \<Rightarrow> v)
      then
        (case find_and_add_demo goal_id (map_of user ''id'') amount demo_goals of
           Inl e \<Rightarrow> Inl e
         | Inr None \<Rightarrow> Inl (HTTPException 404 ''Goal not found'')
         | Inr (Some (g', gs')) \<Rightarrow> Inr (g', s, gs'))
      else
        (case map_of user ''id'' of
           None \<Rightarrow> Inl (KeyError ''id'')
         | Some (JStr uid) \<Rightarrow>
             (case get_goals s uid of
                Inl e \<Rightarrow> Inl e
              | Inr (JArr gs) \<Rightarrow>
                  (case find_and_add goal_id amount gs of
                     Inl e \<Rightarrow> Inl e
                   | Inr None \<Rightarrow> Inl (HTTPException 404 ''Goal not found'')
                   | Inr (Some (g', gs')) \<Rightarrow> Inr (g', save_goals s uid (JArr gs'), demo_goals))
              | Inr (JObj kvs) \<Rightarrow>
                  if kvs = [] then Inl (HTTPException 404 ''Goal not found'') else Inl TypeError
              | Inr (JStr str) \<Rightarrow>
                  if str = [] then Inl (HTTPException 404 ''Goal not found'') else Inl TypeError
              | Inr _ \<Rightarrow> Inl TypeError)
         | Some _ \<Rightarrow> Inl TypeError))"



text \<open>
  The comprehension \<open>[g for g in goals if g["id"] != goal_id]\<close> of \<open>delete_goal\<close> and
  \<open>delete_rule\<close>: the subscript raises \<open>KeyError\<close> on a dict without the key and
  \<open>TypeError\<close> on an element that is not a dict.
\<close>

fun without_id :: "string \<Rightarrow> jval list \<Rightarrow> error + jval list" where
  "without_id goal_id [] = Inr []"
| "without_id goal_id (g # gs) =
     (case g of
        JObj kvs \<Rightarrow>
          (case map_of kvs ''id'' of
             None \<Rightarrow> Inl (KeyError ''id'')
           | Some v \<Rightarrow>
               (case without_id goal_id gs of
                  Inl e \<Rightarrow> Inl e
                | Inr kept \<Rightarrow> Inr (if v \<noteq> JStr goal_id then g # kept else kept)))
      | _ \<Rightarrow> Inl TypeError)"

text \<open>
  The comprehension of the demo branch,
  \<open>[g for g in _demo_goals if not (g["id"] == goal_id and g["user_id"] == user["id"])]\<close>;
  the second comparison is evaluated only when the id matched.
\<close>

fun without_demo :: "string \<Rightarrow> jval option \<Rightarrow> jval list \<Rightarrow> error + jval list" where
  "without_demo goal_id uid [] = Inr []"
| "without_demo goal_id uid (g # gs) =
     (case g of
        JObj kvs \<Rightarrow>
          (case map_of kvs ''id'' of
             None \<Rightarrow> Inl (KeyError ''id'')
           | Some v \<Rightarrow>
               if v = JStr goal_id
               then (case map_of kvs ''user_id'' of
                       None \<Rightarrow> Inl (KeyError ''user_id'')
                     | Some w \<Rightarrow>
                         (case uid of
                            None \<Rightarrow> Inl (KeyError ''id'')
                          | Some u \<Rightarrow>
                              (case without_demo goal_id uid gs of
                                 Inl e \<Rightarrow> Inl e
                               | Inr kept \<Rightarrow> Inr (if w = u then kept else g # kept))))
               else (case without_demo goal_id uid gs of
                       Inl e \<Rightarrow> Inl e
                     | Inr kept \<Rightarrow> Inr (g # kept)))
      | _ \<Rightarrow> Inl TypeError)"

text \<open>
  \<open>delete_goal\<close>: filter the list, answer 404 when nothing was removed, otherwise save
  the filtered list and answer \<open>{"ok": True}\<close>. The result comes with the data directory
  and the in-memory list as the call leaves them, also when it raises. A stored value
  that is not a list is iterated as in \<open>add_money\<close>.
\<close>

definition delete_goal ::
  "(jval \<Rightarrow> string) \<Rightarrow> fs \<Rightarrow> jval list \<Rightarrow> string \<Rightarrow> pydict \<Rightarrow>
   (error + pydict) \<times> fs \<times> jval list" where
  "delete_goal fmt s demo_goals goal_id user =
     (if truthy (dict_get user ''is_demo'' JNull)
      then
        (case without_demo goal_id (map_of user ''id'') demo_goals of
           Inl e \<Rightarrow> (Inl e, s, demo_goals)
         | Inr kept \<Rightarrow>
             (if length kept = length demo_goals
              then Inl (HTTPException 404 ''Goal not found'')
              else Inr [(''ok'', JBool True)], s, kept))
      else
        (case map_of user ''id'' of
           None \<Rightarrow> (Inl (KeyError ''id''), s, demo_goals)
         | Some uid \<Rightarrow>
             (case get_goals s (id_text fmt uid) of
                Inl e \<Rightarrow> (Inl e, s, demo_goals)
              | Inr (JArr gs) \<Rightarrow>
                  (case without_id goal_id gs of
                     Inl e \<Rightarrow> (Inl e, s, demo_goals)
                   | Inr new_goals \<Rightarrow>
                       if length new_goals = length gs
                       then (Inl (HTTPException 404 ''Goal not found''), s, demo_goals)
                       else (Inr [(''ok'', JBool True)],
                             save_goals s (id_text fmt uid) (JArr new_goals), demo_goals))
              | Inr (JObj kvs) \<Rightarrow>
                  (if kvs = [] then Inl (HTTPException 404 ''Goal not found'') else Inl TypeError,
                   s, demo_goals)
              | Inr (JStr str) \<Rightarrow>
                  (if str = [] then Inl (HTTPException 404 ''Goal not found'') else Inl TypeError,
                   s, demo_goals)
              | Inr _ \<Rightarrow> (Inl TypeError, s, demo_goals))))"

text \<open>
  A stored goal as \<open>create_goal\<close> writes it: a dict with an \<open>id\<close> and numeric
  \<open>current_amount\<close> and \<open>target_amount\<close>, within the bounds
  \<open>0 \<le> current_amount \<le> target_amount\<close>.
\<close>

definition num_field :: "pydict \<Rightarrow> string \<Rightarrow> real option" where
  "num_field kvs k = (case map_of kvs k of Some (JNum r) \<Rightarrow> Some r | _ \<Rightarrow> None)"

fun goal_ok :: "jval \<Rightarrow> bool" where
  "goal_ok (JObj kvs) =
     (map_of kvs ''id'' \<noteq> None \<and>
      (case num_field kvs ''current_amount'' of
         None \<Rightarrow> False
       | Some c \<Rightarrow>
           (case num_field kvs ''target_amount'' of
              None \<Rightarrow> False
            | Some t \<Rightarrow> 0 \<le> c \<and> c \<le> t)))"
| "goal_ok _ = False"

text \<open>
  For the demo branch: the element is a dict with a \<open>user_id\<close>, and the element is the
  goal with the given id of the given user.
\<close>

fun has_owner :: "jval \<Rightarrow> bool" where
  "has_owner (JObj kvs) = (map_of kvs ''user_id'' \<noteq> None)"
| "has_owner _ = False"

fun demo_match :: "string \<Rightarrow> jval \<Rightarrow> jval \<Rightarrow> bool" where
  "demo_match goal_id uid (JObj kvs) =
     (map_of kvs ''id'' = Some (JStr goal_id) \<and> map_of kvs ''user_id'' = Some uid)"
| "demo_match goal_id uid _ = False"

text \<open>The element is a dict with an \<open>id\<close>, so that \<open>g["id"]\<close> returns.\<close>

fun has_id_key :: "jval \<Rightarrow> bool" where
  "has_id_key (JObj kvs) = (map_of kvs ''id'' \<noteq> None)"
| "has_id_key _ = False"

section \<open>routes/rules.py\<close>









text \<open>
  \<open>delete_rule\<close>: as the local branch of \<open>delete_goal\<close>, on the rules of the account.
\<close>

definition delete_rule ::
  "(jval \<Rightarrow> string) \<Rightarrow> fs \<Rightarrow> string \<Rightarrow> pydict \<Rightarrow> (error + pydict) \<times> fs" where
  "delete_rule fmt s rule_id user =
     (case map_of user ''id'' of
        None \<Rightarrow> (Inl (KeyError ''id''), s)
      | Some uid \<Rightarrow>
          (case get_rules s (id_text fmt uid) of
             Inl e \<Rightarrow> (Inl e, s)
           | Inr (JArr rs) \<Rightarrow>
               (case without_id rule_id rs of
                  Inl e \<Rightarrow> (Inl e, s)
                | Inr new_rules \<Rightarrow>
                    if length new_rules = length rs
                    then (Inl (HTTPException 404 ''Rule not found''), s)
                    else (Inr [(''ok'', JBool True)],
                          save_rules s (id_text fmt uid) (JArr new_rules)))
           | Inr (JObj kvs) \<Rightarrow>
               (if kvs = [] then Inl (HTTPException 404 ''Rule not found'') else Inl TypeError, s)
           | Inr (JStr str) \<Rightarrow>
               (if str = [] then Inl (HTTPException 404 ''Rule not found'') else Inl TypeError, s)
           | Inr _ \<Rightarrow> (Inl TypeError, s)))"

section \<open>routes/incomes.py: create\_income\<close>

text \<open>
  The validated request body \<open>IncomeCreate\<close>; \<open>date\<close> is the ISO text of the date and
  \<open>category\<close> the value of the enum member.
\<close>

record IncomeCreate =
  amount :: real
  source_name :: string
  category :: string
  date :: string
  description :: "string option"

text \<open>
  \<open>create_income\<close>: builds the record (\<open>uuid\<close> is \<open>str(uuid4())\<close>, \<open>now\<close> is
  \<open>datetime.now().isoformat()\<close>), hands it to \<open>add_income\<close> and returns it. \<open>user\<close> is the
  identity that \<open>get_current_user\<close> returned; its \<open>id\<close> is a string in every identity the
  resolver returns, another value is reported as \<open>TypeError\<close>. The handler does nothing
  else: it does not call \<open>mark_account_active\<close>.
\<close>

definition create_income ::
  "fs \<Rightarrow> string \<Rightarrow> string \<Rightarrow> IncomeCreate \<Rightarrow> pydict \<Rightarrow> error + (pydict \<times> fs)" where
  "create_income s uuid now body user =
     (case map_of user ''id'' of
        None \<Rightarrow> Inl (KeyError ''id'')
      | Some (JStr uid) \<Rightarrow>
          add_income s now uid
            [(''id'', JStr uuid),
             (''user_id'', JStr uid),
             (''amount'', JNum (amount body)),
             (''source_name'', JStr (source_name body)),
             (''category'', JStr (category body)),
             (''date'', JStr (date body)),
             (''description'', (case description body of None \<Rightarrow> JNull | Some d \<Rightarrow> JStr d)),
             (''created_at'', JStr now)]
      | Some _ \<Rightarrow> Inl TypeError)"

section \<open>routes/admin.py\<close>

text \<open>
  The aggregation reader, in the configuration without an external database
  (\<open>_USE_LOCAL\<close> true), where \<open>get_user_incomes\<close>, \<open>get_user_expenses\<close> and
  \<open>get_user_rules\<close> read the local store. \<open>get_admin_dashboard\<close> wraps its whole body in
  \<open>try ... except Exception\<close> and turns every exception into an \<open>HTTPException\<close> with
  status 500, so the helpers below return \<open>None\<close> for "an exception was raised" without
  saying which one; \<open>caught\<close> does that for a call that may raise.
\<close>

definition get_user_incomes :: "fs \<Rightarrow> string \<Rightarrow> error + jval" where
  "get_user_incomes s user_id = get_incomes s user_id"

definition get_user_expenses :: "fs \<Rightarrow> string \<Rightarrow> error + jval" where
  "get_user_expenses s user_id = get_expenses s user_id"

definition get_user_rules :: "fs \<Rightarrow> string \<Rightarrow> error + jval" where
  "get_user_rules s user_id = get_rules s user_id"

fun caught :: "error + 'a \<Rightarrow> 'a option" where
  "caught (Inl e) = None"
| "caught (Inr v) = Some v"

text \<open>
  An account id comes from the users file and can be any JSON value (\<open>id_text\<close> gives its
  place in a file name). Lists and dicts are unhashable.
\<close>

fun hashable :: "jval \<Rightarrow> bool" where
  "hashable (JArr xs) = False"
| "hashable (JObj kvs) = False"
| "hashable _ = True"

text \<open>
  \<open>anonymize_user_id\<close>: \<open>f"USER_{hash(user_id) % 10000:04d}"\<close>. The built-in \<open>hash\<close> is a
  parameter; it raises \<open>TypeError\<close> on an unhashable value. The remainder is between 0
  and 9999, printed with four digits.
\<close>

definition digit_char :: "nat \<Rightarrow> char" where
  "digit_char d = ''0123456789'' ! (d mod 10)"

definition anonymize_user_id :: "(jval \<Rightarrow> int) \<Rightarrow> jval \<Rightarrow> string option" where
  "anonymize_user_id hash user_id =
     (if hashable user_id
      then (let n = nat (hash user_id mod 10000)
            in Some (''USER_'' @ [digit_char (n div 1000), digit_char (n div 100),
                                  digit_char (n div 10), digit_char n]))
      else None)"

text \<open>
  \<open>get_all_users_data\<close>: one dict per entry of the users file, in its order.
  \<open>users_dict.items()\<close> needs a dict and \<open>user_data["id"]\<close> a dict with that key; an
  exception of \<open>_load_users\<close> propagates.
\<close>

definition get_all_users_data :: "fs \<Rightarrow> pydict list option \<times> fs" where
  "get_all_users_data s =
     (let (loaded, s1) = load_users s
      in (case loaded of
            Inr (JObj kvs) \<Rightarrow>
              those (map (\<lambda>(email, user_data).
                       case user_data of
                         JObj ud \<Rightarrow>
                           (case map_of ud ''id'' of
                              None \<Rightarrow> None
                            | Some i \<Rightarrow>
                                Some [(''id'', i), (''email'', JStr email),
                                      (''created_at'', dict_get ud ''created_at'' (JStr []))])
                       | _ \<Rightarrow> None) kvs)
          | _ \<Rightarrow> None, s1))"

text \<open>
  What a \<open>for\<close> loop or a comprehension iterates: the elements of a list, the keys of a
  dict, the characters of a string; other values are not iterable.
\<close>

fun iterate :: "jval \<Rightarrow> jval list option" where
  "iterate (JArr xs) = Some xs"
| "iterate (JObj kvs) = Some (map (\<lambda>kv. JStr (fst kv)) kvs)"
| "iterate (JStr str) = Some (map (\<lambda>c. JStr [c]) str)"
| "iterate _ = None"

text \<open>
  \<open>float(x)\<close>: a number or a bool converts, a string is parsed (\<open>parse\<close> is the parser of
  Python's float literals, \<open>None\<close> where it raises \<open>ValueError\<close>), anything else raises
  \<open>TypeError\<close>. A JSON number whose magnitude reaches \<open>2^1024 - 2^970\<close> can only be an
  integer, since every finite double is smaller, and \<open>float\<close> of such an integer raises
  \<open>OverflowError\<close>. \<open>amount_of\<close> is \<open>float(rec.get("amount", 0))\<close>, which needs a dict.
\<close>

fun py_float :: "(string \<Rightarrow> real option) \<Rightarrow> jval \<Rightarrow> real option" where
  "py_float parse (JNum r) = (if \<bar>r\<bar> < 2 ^ 1024 - 2 ^ 970 then Some r else None)"
| "py_float parse (JBool b) = Some (if b then 1 else 0)"
| "py_float parse (JStr str) = parse str"
| "py_float parse _ = None"

fun amount_of :: "(string \<Rightarrow> real option) \<Rightarrow> jval \<Rightarrow> real option" where
  "amount_of parse (JObj d) = py_float parse (dict_get d ''amount'' (JNum 0))"
| "amount_of parse _ = None"

definition sum_amounts :: "(string \<Rightarrow> real option) \<Rightarrow> jval list \<Rightarrow> real option" where
  "sum_amounts parse xs = map_option sum_list (those (map (amount_of parse) xs))"

text \<open>
  The order of \<open>str\<close>: by code points, a proper prefix first. \<open>field_after d k bound\<close> is
  \<open>d.get(k, "") > bound\<close>, which raises \<open>TypeError\<close> when the value is not a string.
\<close>

fun str_less :: "string \<Rightarrow> string \<Rightarrow> bool" where
  "str_less [] [] = False"
| "str_less [] (y # ys) = True"
| "str_less (x # xs) [] = False"
| "str_less (x # xs) (y # ys) =
     (code_point x < code_point y \<or> (x = y \<and> str_less xs ys))"

definition field_after :: "pydict \<Rightarrow> string \<Rightarrow> string \<Rightarrow> bool option" where
  "field_after d k bound =
     (case dict_get d k (JStr []) of JStr v \<Rightarrow> Some (str_less bound v) | _ \<Rightarrow> None)"

text \<open>
  \<open>any(x.get("created_at", "") > bound for x in xs)\<close>: stops at the first element for
  which the comparison holds.
\<close>

fun any_created_after :: "string \<Rightarrow> jval list \<Rightarrow> bool option" where
  "any_created_after bound [] = Some False"
| "any_created_after bound (x # xs) =
     (case x of
        JObj d \<Rightarrow>
          (case field_after d ''created_at'' bound of
             None \<Rightarrow> None
           | Some True \<Rightarrow> Some True
           | Some False \<Rightarrow> any_created_after bound xs)
      | _ \<Rightarrow> None)"

text \<open>
  The comprehension \<open>recent_incomes\<close>: the incomes with
  \<open>created_at > ninety_days_ago or date > ninety_days_ago[:10]\<close>.
\<close>

fun recent_incomes :: "string \<Rightarrow> jval list \<Rightarrow> jval list option" where
  "recent_incomes ninety [] = Some []"
| "recent_incomes ninety (x # xs) =
     (case x of
        JObj d \<Rightarrow>
          (case field_after d ''created_at'' ninety of
             None \<Rightarrow> None
           | Some True \<Rightarrow> map_option (Cons x) (recent_incomes ninety xs)
           | Some False \<Rightarrow>
               (case field_after d ''date'' (take 10 ninety) of
                  None \<Rightarrow> None
                | Some b \<Rightarrow>
                    map_option (\<lambda>rest. if b then x # rest else rest) (recent_incomes ninety xs)))
      | _ \<Rightarrow> None)"

text \<open>
  The alert appended for an account with recent incomes whose average over three months is
  below 15000. \<open>round2\<close> is \<open>round(x, 2)\<close>.
\<close>

definition low_income_alert ::
  "(real \<Rightarrow> real) \<Rightarrow> (string \<Rightarrow> real option) \<Rightarrow> string \<Rightarrow> jval list \<Rightarrow> jval list option" where
  "low_income_alert round2 parse anon_id recent =
     (if recent \<noteq> []
      then do {
        total \<leftarrow> sum_amounts parse recent;
        let avg_monthly_income = total / 3;
        Some (if avg_monthly_income < 15000
              then [JObj [(''user_id'', JStr anon_id),
                          (''avg_monthly_income'', JNum (round2 avg_monthly_income)),
                          (''period'', JStr ''Last 3 months''),
                          (''severity'',
                             JStr (if avg_monthly_income < 10000 then ''high'' else ''medium''))]]
              else [])
      }
      else Some [])"

text \<open>
  The loop over the expenses that collects those above 50000. The description is cut
  with \<open>[:50]\<close>, which a string and a list support.
\<close>

fun slice_to :: "nat \<Rightarrow> jval \<Rightarrow> jval option" where
  "slice_to k (JStr str) = Some (JStr (take k str))"
| "slice_to k (JArr xs) = Some (JArr (take k xs))"
| "slice_to k _ = None"

fun large_transactions_of ::
  "(string \<Rightarrow> real option) \<Rightarrow> string \<Rightarrow> jval list \<Rightarrow> jval list option" where
  "large_transactions_of parse anon_id [] = Some []"
| "large_transactions_of parse anon_id (x # xs) =
     (case x of
        JObj d \<Rightarrow> do {
          amt \<leftarrow> py_float parse (dict_get d ''amount'' (JNum 0));
          found \<leftarrow> (if amt > 50000
                    then do {
                      descr \<leftarrow> slice_to 50 (dict_get d ''description'' (JStr []));
                      Some [JObj [(''user_id'', JStr anon_id),
                                  (''amount'', JNum amt),
                                  (''category'', dict_get d ''category'' (JStr ''unknown'')),
                                  (''date'', dict_get d ''date'' (JStr ''unknown'')),
                                  (''description'', descr)]]
                    }
                    else Some []);
          rest \<leftarrow> large_transactions_of parse anon_id xs;
          Some (found @ rest)
        }
      | _ \<Rightarrow> None)"

text \<open>
  \<open>rule_usage[rule_type] += 1\<close> on a \<open>defaultdict(int)\<close>. Keys are compared as Python
  compares them (numbers and bools by value); an unhashable key raises \<open>TypeError\<close>.
\<close>

definition key_eq :: "jval \<Rightarrow> jval \<Rightarrow> bool" where
  "key_eq a b =
     (case (as_number a, as_number b) of (Some x, Some y) \<Rightarrow> x = y | _ \<Rightarrow> a = b)"

fun count_key :: "jval \<Rightarrow> (jval \<times> nat) list \<Rightarrow> (jval \<times> nat) list" where
  "count_key k [] = [(k, 1)]"
| "count_key k ((k', n) # rest) =
     (if key_eq k' k then (k', n + 1) # rest else (k', n) # count_key k rest)"

fun count_rules :: "jval list \<Rightarrow> (jval \<times> nat) list \<Rightarrow> (jval \<times> nat) list option" where
  "count_rules [] usage = Some usage"
| "count_rules (rule # rules) usage =
     (case rule of
        JObj d \<Rightarrow>
          (case dict_get d ''condition'' (JObj []) of
             JObj c \<Rightarrow>
               (let rule_type = dict_get c ''field'' (JStr ''unknown'')
                in if hashable rule_type then count_rules rules (count_key rule_type usage)
                   else None)
           | _ \<Rightarrow> None)
      | _ \<Rightarrow> None)"

text \<open>The accumulators of the first loop of \<open>get_admin_dashboard\<close>.\<close>

record dash_acc =
  total_income :: real
  total_expenses :: real
  active_users_30d :: nat
  low_income_alerts :: "jval list"
  large_transactions :: "jval list"
  rule_usage :: "(jval \<times> nat) list"

text \<open>
  The body of the first loop for one account. \<open>thirty\<close> and \<open>ninety\<close> are the ISO texts of
  the instants 30 and 90 days before now. The account's id is whatever the users file
  holds; \<open>get_all_users_data\<close> has made sure that the key is there.
\<close>

definition dashboard_user ::
  "(jval \<Rightarrow> int) \<Rightarrow> (jval \<Rightarrow> string) \<Rightarrow> (real \<Rightarrow> real) \<Rightarrow> (string \<Rightarrow> real option) \<Rightarrow>
   string \<Rightarrow> string \<Rightarrow> fs \<Rightarrow> pydict \<Rightarrow> dash_acc \<Rightarrow> dash_acc option" where
  "dashboard_user hash fmt round2 parse thirty ninety s user acc =
     (case map_of user ''id'' of
        Some user_id \<Rightarrow> do {
          anon_id \<leftarrow> anonymize_user_id hash user_id;
          loaded_incomes \<leftarrow> caught (get_user_incomes s (id_text fmt user_id));
          loaded_expenses \<leftarrow> caught (get_user_expenses s (id_text fmt user_id));
          loaded_rules \<leftarrow> caught (get_user_rules s (id_text fmt user_id));
          incomes \<leftarrow> iterate loaded_incomes;
          expenses \<leftarrow> iterate loaded_expenses;
          rules \<leftarrow> iterate loaded_rules;
          user_income_total \<leftarrow> sum_amounts parse incomes;
          user_expense_total \<leftarrow> sum_amounts parse expenses;
          active_inc \<leftarrow> any_created_after thirty incomes;
          recent_activity \<leftarrow> (if active_inc then Some True
                               else any_created_after thirty expenses);
          recent \<leftarrow> recent_incomes ninety incomes;
          alerts \<leftarrow> low_income_alert round2 parse anon_id recent;
          large \<leftarrow> large_transactions_of parse anon_id expenses;
          usage \<leftarrow> count_rules rules (rule_usage acc);
          Some \<lparr>total_income = total_income acc + user_income_total,
                total_expenses = total_expenses acc + user_expense_total,
                active_users_30d = active_users_30d acc + (if recent_activity then 1 else 0),
                low_income_alerts = low_income_alerts acc @ alerts,
                large_transactions = large_transactions acc @ large,
                rule_usage = usage\<rparr>
        }
      | None \<Rightarrow> None)"

text \<open>
  The second loop, over the first ten accounts: incomes grouped by the first seven
  characters of \<open>date\<close> (or of \<open>created_at\<close>), summed in a \<open>defaultdict(float)\<close>, then sorted
  by month, of which the last six are kept.
\<close>

definition month_of :: "pydict \<Rightarrow> string option" where
  "month_of d =
     (case dict_get d ''date'' (dict_get d ''created_at'' (JStr [])) of
        JStr v \<Rightarrow> Some (take 7 v)
      | _ \<Rightarrow> None)"

fun monthly_income_of ::
  "(string \<Rightarrow> real option) \<Rightarrow> jval list \<Rightarrow> (string \<times> real) list \<Rightarrow> (string \<times> real) list option" where
  "monthly_income_of parse [] m = Some m"
| "monthly_income_of parse (x # xs) m =
     (case x of
        JObj d \<Rightarrow> do {
          date_str \<leftarrow> month_of d;
          amt \<leftarrow> py_float parse (dict_get d ''amount'' (JNum 0));
          monthly_income_of parse xs
            (AList.update date_str
               ((case map_of m date_str of None \<Rightarrow> 0 | Some old \<Rightarrow> old) + amt) m)
        }
      | _ \<Rightarrow> None)"

fun insert_month :: "string \<times> real \<Rightarrow> (string \<times> real) list \<Rightarrow> (string \<times> real) list" where
  "insert_month kv [] = [kv]"
| "insert_month kv (kv' # rest) =
     (if str_less (fst kv') (fst kv) then kv' # insert_month kv rest else kv # kv' # rest)"

definition sorted_months :: "(string \<times> real) list \<Rightarrow> (string \<times> real) list" where
  "sorted_months m = foldr insert_month m []"

definition trend_of ::
  "(jval \<Rightarrow> int) \<Rightarrow> (jval \<Rightarrow> string) \<Rightarrow> (string \<Rightarrow> real option) \<Rightarrow> fs \<Rightarrow> pydict \<Rightarrow>
   jval list option" where
  "trend_of hash fmt parse s user =
     (case map_of user ''id'' of
        Some user_id \<Rightarrow> do {
          loaded_incomes \<leftarrow> caught (get_user_incomes s (id_text fmt user_id));
          incomes \<leftarrow> iterate loaded_incomes;
          monthly_income \<leftarrow> monthly_income_of parse incomes [];
          if monthly_income \<noteq> []
          then do {
            anon_id \<leftarrow> anonymize_user_id hash user_id;
            Some [JObj [(''user_id'', JStr anon_id),
                        (''monthly_data'',
                           JObj (map (\<lambda>kv. (fst kv, JNum (snd kv)))
                                  (let sorted = sorted_months monthly_income
                                   in drop (length sorted - 6) sorted)))]]
          }
          else Some []
        }
      | None \<Rightarrow> None)"

text \<open>A loop that stops at the first failure.\<close>

fun for_each :: "('a \<Rightarrow> 'b \<Rightarrow> 'b option) \<Rightarrow> 'a list \<Rightarrow> 'b \<Rightarrow> 'b option" where
  "for_each f [] acc = Some acc"
| "for_each f (x # xs) acc = (case f x acc of None \<Rightarrow> None | Some acc' \<Rightarrow> for_each f xs acc')"

text \<open>
  \<open>get_admin_dashboard\<close>. \<open>timestamp\<close> is \<open>datetime.now().isoformat()\<close>. Every exception of
  the body is answered with status 500; the text of the exception that the detail of the
  response ends with is left out. The dict
  \<open>rule_usage\<close> is given as the list of its items, since its keys need not be strings.
  The second component is the data directory, in which \<open>_load_users\<close> may have created
  the users file.
\<close>

definition get_admin_dashboard ::
  "(jval \<Rightarrow> int) \<Rightarrow> (jval \<Rightarrow> string) \<Rightarrow> (real \<Rightarrow> real) \<Rightarrow> (string \<Rightarrow> real option) \<Rightarrow>
   string \<Rightarrow> string \<Rightarrow> string \<Rightarrow> fs \<Rightarrow> (error + pydict) \<times> fs" where
  "get_admin_dashboard hash fmt round2 parse thirty ninety timestamp s =
     (let (loaded, s1) = get_all_users_data s;
          result = do {
            users \<leftarrow> loaded;
            acc \<leftarrow> for_each (dashboard_user hash fmt round2 parse thirty ninety s1) users
                     \<lparr>total_income = 0, total_expenses = 0, active_users_30d = 0,
                      low_income_alerts = [], large_transactions = [], rule_usage = []\<rparr>;
            income_trends \<leftarrow>
              for_each (\<lambda>user trends. map_option (\<lambda>tr. trends @ tr) (trend_of hash fmt parse s1 user))
                (take 10 users) [];
            Some [(''summary'',
                     JObj [(''total_users'', JNum (real (length users))),
                           (''active_users_30d'', JNum (real (active_users_30d acc))),
                           (''total_income'', JNum (round2 (total_income acc))),
                           (''total_expenses'', JNum (round2 (total_expenses acc))),
                           (''total_savings'',
                              JNum (round2 (total_income acc - total_expenses acc)))]),
                  (''income_trends'', JArr income_trends),
                  (''low_income_alerts'', JArr (take 10 (low_income_alerts acc))),
                  (''large_transactions'', JArr (take 20 (large_transactions acc))),
                  (''rule_usage'',
                     JArr (map (\<lambda>kn. JArr [fst kn, JNum (real (snd kn))]) (rule_usage acc))),
                  (''timestamp'', JStr timestamp)]
          }
      in (case result of
            None \<Rightarrow> Inl (HTTPException 500 ''Dashboard error'')
          | Some summary \<Rightarrow> Inr summary, s1))"

text \<open>A store with two incomes and one expense of user \<open>u1\<close>, for the concrete checks.\<close>

definition demo_store :: fs where
  "demo_store =
     save_data
       (save_data Map.empty ''u1'' ''incomes''
          (JArr [JObj [(''id'', JStr ''a''), (''user_id'', JStr ''u1'')],
                 JObj [(''id'', JStr ''b''), (''user_id'', JStr ''u1'')]]))
       ''u1'' ''expenses''
       (JArr [JObj [(''id'', JStr ''e''), (''user_id'', JStr ''u1'')]])"

text \<open>
  A store holding one goal of user \<open>u1\<close> with nothing saved towards a target of 1000, and
  the identity of that user.
\<close>

definition demo_goal :: pydict where
  "demo_goal = [(''id'', JStr ''g1''), (''user_id'', JStr ''u1''), (''name'', JStr ''Laptop''),
                (''target_amount'', JNum 1000), (''current_amount'', JNum 0)]"

definition goal_store :: fs where
  "goal_store = save_goals Map.empty ''u1'' (JArr [JObj demo_goal])"

definition demo_identity :: pydict where
  "demo_identity = [(''id'', JStr ''u1''), (''email'', JStr ''new.user@gmail.com''),
                    (''full_name'', JStr ''New User''), (''is_demo'', JBool False)]"

text \<open>
  Inputs for the concrete checks: a stand-in for the key derivation function, and two
  tokens of the length \<open>secrets.token_urlsafe(32)\<close> produces (43 characters).
\<close>

definition toy_kdf :: "string \<Rightarrow> string \<Rightarrow> string" where
  "toy_kdf password salt = salt @ password"

definition token_one :: string where
  "token_one = ''AAAAAAAAAAAAAAAAAAAAAAAAAAAAAAAAAAAAAAAAAA1''"

definition token_two :: string where
  "token_two = ''AAAAAAAAAAAAAAAAAAAAAAAAAAAAAAAAAAAAAAAAAA2''"

text \<open>
  The data directory right after the first signup on an empty directory, and a request
  body for a first income.
\<close>

definition registered_store :: fs where
  "registered_store =
     snd (signup toy_kdf Map.empty ''uid1'' ''salt1'' token_one ''2026-01-01T00:00:00''
            ''new.user@gmail.com'' ''secret1'' ''New User'')"

definition demo_income_body :: IncomeCreate where
  "demo_income_body =
     \<lparr>amount = 500, source_name = ''Upwork'', category = ''freelance'',
      date = ''2026-01-15'', description = None\<rparr>"

text \<open>
  A collection file that \<open>_load_data\<close> reads as the empty list: it is missing, or its
  contents are not JSON.
\<close>

definition reads_empty :: "fs \<Rightarrow> string \<Rightarrow> string \<Rightarrow> bool" where
  "reads_empty s user_id data_type =
     (s (get_user_file user_id data_type) = None
      \<or> s (get_user_file user_id data_type) = Some Unparseable)"

text \<open>
  A data directory with one account whose incomes file does not parse and whose other
  collection files are missing.
\<close>

definition broken_store :: fs where
  "broken_store =
     (save_users Map.empty
        (JObj [(''new.user@gmail.com'',
                JObj [(''id'', JStr ''uid1''), (''email'', JStr ''new.user@gmail.com'')])]))
     (get_user_file ''uid1'' ''incomes'' \<mapsto> Unparseable)"

text \<open>
  A data directory with one account whose incomes file holds bytes that are not UTF-8, so
  that \<open>read_text\<close> raises \<open>UnicodeDecodeError\<close>, and the same directory with that file
  holding the empty list.
\<close>

definition undecodable_store :: fs where
  "undecodable_store =
     (save_users Map.empty
        (JObj [(''new.user@gmail.com'',
                JObj [(''id'', JStr ''uid1''), (''email'', JStr ''new.user@gmail.com'')])]))
     (get_user_file ''uid1'' ''incomes'' \<mapsto> Unreadable UnicodeDecodeError)"

definition emptied_store :: fs where
  "emptied_store = save_data undecodable_store ''uid1'' ''incomes'' (JArr [])"

text \<open>
  A rule of user \<open>u1\<close>, a data directory in which each of the four collections of \<open>u1\<close>
  holds records, and request bodies for a goal and a rule.
\<close>

definition demo_rule :: pydict where
  "demo_rule = [(''id'', JStr ''r1''), (''user_id'', JStr ''u1''), (''name'', JStr ''Round up'')]"

definition full_store :: fs where
  "full_store =
     save_rules (save_goals demo_store ''u1'' (JArr [JObj demo_goal])) ''u1''
       (JArr [JObj demo_rule])"



section \<open>Lemmas on the store\<close>

lemma load_save_same:
  "load_data (save_data s u t v) u t = Inr v"
  by (simp add: load_data_def save_data_def)

lemma stamp_other_keys:
  assumes "k \<noteq> ''user_id''" and "k \<noteq> ''created_at''"
  shows "map_of (default_created_at now (set_user_id u r)) k = map_of r k"
  using assms by (simp add: default_created_at_def set_user_id_def update_conv')

lemma stamp_user_id:
  "map_of (default_created_at now (set_user_id u r)) ''user_id'' = Some (JStr u)"
  by (simp add: default_created_at_def set_user_id_def update_conv')

lemma stamp_created_at:
  "map_of (default_created_at now (set_user_id u r)) ''created_at'' \<noteq> None"
  by (simp add: default_created_at_def update_conv')

lemma keep_others_dicts:
  "list_all is_dict xs \<Longrightarrow> keep_others rid xs = Inr (filter (\<lambda>x. \<not> has_id rid x) xs)"
proof (induction xs)
  case Nil
  then show ?case by simp
next
  case (Cons x xs)
  then obtain kvs where x: "x = JObj kvs"
    by (cases x) simp_all
  from Cons have "keep_others rid xs = Inr (filter (\<lambda>x. \<not> has_id rid x) xs)"
    by simp
  with x show ?case
    by (simp split: option.splits)
qed

lemma filter_absent:
  "\<not> list_ex (has_id rid) xs \<Longrightarrow> filter (\<lambda>x. \<not> has_id rid x) xs = xs"
  by (induction xs) simp_all

lemma filter_present_shorter:
  "list_ex (has_id rid) xs \<Longrightarrow> length (filter (\<lambda>x. \<not> has_id rid x) xs) < length xs"
proof (induction xs)
  case Nil
  then show ?case by simp
next
  case (Cons x xs)
  show ?case
  proof (cases "has_id rid x")
    case True
    then show ?thesis by (simp add: less_Suc_eq_le)
  next
    case False
    with Cons show ?thesis by simp
  qed
qed

lemma filter_gone:
  "\<not> list_ex (has_id rid) (filter (\<lambda>x. \<not> has_id rid x) xs)"
  by (induction xs) simp_all

lemma filter_dicts:
  "list_all is_dict xs \<Longrightarrow> list_all is_dict (filter P xs)"
  by (induction xs) simp_all

lemma has_id_get_id:
  "has_id rid x \<longleftrightarrow> get_id x = Inr (JStr rid)"
  by (cases x) (simp_all split: option.splits)

lemma filter_unique_id:
  assumes "distinct (map get_id xs)" and "list_ex (has_id rid) xs"
  shows "length xs = Suc (length (filter (\<lambda>x. \<not> has_id rid x) xs))"
  using assms
proof (induction xs)
  case Nil
  then show ?case by simp
next
  case (Cons x xs)
  show ?case
  proof (cases "has_id rid x")
    case True
    have "\<not> list_ex (has_id rid) xs"
    proof
      assume "list_ex (has_id rid) xs"
      then obtain y where "y \<in> set xs" and "has_id rid y"
        by (auto simp: list_ex_iff)
      with True have "get_id x \<in> get_id ` set xs"
        by (auto simp: has_id_get_id intro: rev_image_eqI)
      with Cons.prems(1) show False
        by simp
    qed
    then have "filter (\<lambda>x. \<not> has_id rid x) xs = xs"
      by (rule filter_absent)
    with True show ?thesis by simp
  next
    case False
    with Cons show ?thesis by simp
  qed
qed

lemma delete_income_result:
  assumes "get_incomes s u = Inr (JArr xs)" and "list_all is_dict xs"
  shows "delete_income s u rid =
           (if list_ex (has_id rid) xs
            then Inr (True, save_data s u ''incomes'' (JArr (filter (\<lambda>x. \<not> has_id rid x) xs)))
            else Inr (False, s))"
proof (cases "list_ex (has_id rid) xs")
  case True
  with assms show ?thesis
    by (simp add: delete_income_def keep_others_dicts filter_present_shorter)
next
  case False
  with assms show ?thesis
    by (simp add: delete_income_def keep_others_dicts filter_absent)
qed

lemma delete_expense_result:
  assumes "get_expenses s u = Inr (JArr xs)" and "list_all is_dict xs"
  shows "delete_expense s u rid =
           (if list_ex (has_id rid) xs
            then Inr (True, save_data s u ''expenses'' (JArr (filter (\<lambda>x. \<not> has_id rid x) xs)))
            else Inr (False, s))"
proof (cases "list_ex (has_id rid) xs")
  case True
  with assms show ?thesis
    by (simp add: delete_expense_def keep_others_dicts filter_present_shorter)
next
  case False
  with assms show ?thesis
    by (simp add: delete_expense_def keep_others_dicts filter_absent)
qed

lemma delete_income_once:
  assumes "get_incomes s u = Inr (JArr xs)" and "list_all is_dict xs"
  shows "\<exists>s1. delete_income s u rid = Inr (list_ex (has_id rid) xs, s1)
           \<and> get_incomes s1 u = Inr (JArr (filter (\<lambda>x. \<not> has_id rid x) xs))
           \<and> (\<not> list_ex (has_id rid) xs \<longrightarrow> s1 = s)
           \<and> delete_income s1 u rid = Inr (False, s1)"
proof (cases "list_ex (has_id rid) xs")
  case True
  let ?ys = "filter (\<lambda>x. \<not> has_id rid x) xs"
  let ?s1 = "save_data s u ''incomes'' (JArr ?ys)"
  have 1: "delete_income s u rid = Inr (True, ?s1)"
    using assms True by (simp add: delete_income_result)
  have 2: "get_incomes ?s1 u = Inr (JArr ?ys)"
    by (simp add: get_incomes_def load_save_same)
  have "list_all is_dict ?ys"
    using assms(2) by (rule filter_dicts)
  with 2 have 3: "delete_income ?s1 u rid = Inr (False, ?s1)"
    by (simp add: delete_income_result filter_gone)
  from 1 2 3 True show ?thesis by simp
next
  case False
  have 1: "delete_income s u rid = Inr (False, s)"
    using assms False by (simp add: delete_income_result)
  from False have "filter (\<lambda>x. \<not> has_id rid x) xs = xs"
    by (rule filter_absent)
  with 1 assms(1) False show ?thesis by simp
qed

lemma delete_expense_once:
  assumes "get_expenses s u = Inr (JArr xs)" and "list_all is_dict xs"
  shows "\<exists>s1. delete_expense s u rid = Inr (list_ex (has_id rid) xs, s1)
           \<and> get_expenses s1 u = Inr (JArr (filter (\<lambda>x. \<not> has_id rid x) xs))
           \<and> (\<not> list_ex (has_id rid) xs \<longrightarrow> s1 = s)
           \<and> delete_expense s1 u rid = Inr (False, s1)"
proof (cases "list_ex (has_id rid) xs")
  case True
  let ?ys = "filter (\<lambda>x. \<not> has_id rid x) xs"
  let ?s1 = "save_data s u ''expenses'' (JArr ?ys)"
  have 1: "delete_expense s u rid = Inr (True, ?s1)"
    using assms True by (simp add: delete_expense_result)
  have 2: "get_expenses ?s1 u = Inr (JArr ?ys)"
    by (simp add: get_expenses_def load_save_same)
  have "list_all is_dict ?ys"
    using assms(2) by (rule filter_dicts)
  with 2 have 3: "delete_expense ?s1 u rid = Inr (False, ?s1)"
    by (simp add: delete_expense_result filter_gone)
  from 1 2 3 True show ?thesis by simp
next
  case False
  have 1: "delete_expense s u rid = Inr (False, s)"
    using assms False by (simp add: delete_expense_result)
  from False have "filter (\<lambda>x. \<not> has_id rid x) xs = xs"
    by (rule filter_absent)
  with 1 assms(1) False show ?thesis by simp
qed

lemma demo_incomes:
  "get_incomes demo_store ''u1'' =
     Inr (JArr [JObj [(''id'', JStr ''a''), (''user_id'', JStr ''u1'')],
           JObj [(''id'', JStr ''b''), (''user_id'', JStr ''u1'')]])"
  by (simp add: demo_store_def get_incomes_def load_data_def save_data_def get_user_file_def)

lemma demo_expenses:
  "get_expenses demo_store ''u1'' = Inr (JArr [JObj [(''id'', JStr ''e''), (''user_id'', JStr ''u1'')]])"
  by (simp add: demo_store_def get_expenses_def load_data_def save_data_def get_user_file_def)

lemma stamp_id:
  "map_of (default_created_at now (set_user_id u r)) ''id'' = map_of r ''id''"
  by (simp add: stamp_other_keys)

lemma stamp_created_at_value:
  "map_of (default_created_at now (set_user_id u r)) ''created_at'' =
     Some (case map_of r ''created_at'' of None \<Rightarrow> JStr now | Some v \<Rightarrow> v)"
  by (auto simp: default_created_at_def set_user_id_def update_conv' split: option.splits)

lemma length_stamp_all:
  "length (stamp_all clock u rs) = length rs"
  by (simp add: stamp_all_def)

lemma nth_stamp_all:
  "i < length rs \<Longrightarrow>
     stamp_all clock u rs ! i = default_created_at (clock i) (set_user_id u (rs ! i))"
  by (simp add: stamp_all_def nth_enumerate_eq)

lemma stamp_all_owned:
  "list_all (owned_by u) (map JObj (stamp_all clock u rs))"
  by (simp add: list_all_length length_stamp_all nth_stamp_all stamp_user_id)

lemma stamp_all_fields:
  "list_all2 (\<lambda>r r'. map_of r' ''id'' = map_of r ''id'' \<and> map_of r' ''created_at'' \<noteq> None)
     rs (stamp_all clock u rs)"
  by (simp add: list_all2_conv_all_nth length_stamp_all nth_stamp_all stamp_id
        stamp_created_at_value)

lemma add_income_result:
  assumes "get_incomes s u = Inr (JArr xs)"
  shows "add_income s now u r =
           Inr (default_created_at now (set_user_id u r),
                save_data s u ''incomes''
                  (JArr (xs @ [JObj (default_created_at now (set_user_id u r))])))"
  using assms by (simp add: add_income_def Let_def)

lemma add_expense_result:
  assumes "get_expenses s u = Inr (JArr xs)"
  shows "add_expense s now u r =
           Inr (default_created_at now (set_user_id u r),
                save_data s u ''expenses''
                  (JArr (xs @ [JObj (default_created_at now (set_user_id u r))])))"
  using assms by (simp add: add_expense_def Let_def)

lemma add_incomes_bulk_result:
  assumes "get_incomes s u = Inr (JArr xs)"
  shows "\<exists>s'. add_incomes_bulk s clock u rs = Inr (length rs, s')
           \<and> get_incomes s' u = Inr (JArr (xs @ map JObj (stamp_all clock u rs)))"
proof (cases "rs = []")
  case True
  with assms show ?thesis
    by (simp add: add_incomes_bulk_def stamp_all_def)
next
  case False
  with assms show ?thesis
    by (simp add: add_incomes_bulk_def Let_def length_stamp_all get_incomes_def load_save_same)
qed

lemma add_expenses_bulk_result:
  assumes "get_expenses s u = Inr (JArr xs)"
  shows "\<exists>s'. add_expenses_bulk s clock u rs = Inr (length rs, s')
           \<and> get_expenses s' u = Inr (JArr (xs @ map JObj (stamp_all clock u rs)))"
proof (cases "rs = []")
  case True
  with assms show ?thesis
    by (simp add: add_expenses_bulk_def stamp_all_def)
next
  case False
  with assms show ?thesis
    by (simp add: add_expenses_bulk_def Let_def length_stamp_all get_expenses_def load_save_same)
qed

lemma empty_incomes:
  "get_incomes Map.empty u = Inr (JArr [])"
  by (simp add: get_incomes_def load_data_def)

lemma empty_expenses:
  "get_expenses Map.empty u = Inr (JArr [])"
  by (simp add: get_expenses_def load_data_def)

lemma find_in_set:
  "find P xs = Some x \<Longrightarrow> x \<in> set xs"
  by (induction xs) (auto split: if_splits)

lemma num_field_Some:
  "num_field kvs k = Some r \<longleftrightarrow> map_of kvs k = Some (JNum r)"
proof (cases "map_of kvs k")
  case None
  then show ?thesis by (simp add: num_field_def)
next
  case (Some v)
  then show ?thesis by (cases v) (simp_all add: num_field_def)
qed

lemma goal_ok_dict:
  "goal_ok (JObj kvs) \<longleftrightarrow>
     (\<exists>i c t. map_of kvs ''id'' = Some i
        \<and> map_of kvs ''current_amount'' = Some (JNum c)
        \<and> map_of kvs ''target_amount'' = Some (JNum t) \<and> 0 \<le> c \<and> c \<le> t)"
proof
  assume ok: "goal_ok (JObj kvs)"
  then obtain i where i: "map_of kvs ''id'' = Some i"
    by auto
  from ok obtain c where c: "num_field kvs ''current_amount'' = Some c"
    by (cases "num_field kvs ''current_amount''") simp_all
  from ok c obtain t where t: "num_field kvs ''target_amount'' = Some t"
    by (cases "num_field kvs ''target_amount''") simp_all
  from ok c t have "0 \<le> c \<and> c \<le> t"
    by simp
  with i c t show "\<exists>i c t. map_of kvs ''id'' = Some i
        \<and> map_of kvs ''current_amount'' = Some (JNum c)
        \<and> map_of kvs ''target_amount'' = Some (JNum t) \<and> 0 \<le> c \<and> c \<le> t"
    by (simp add: num_field_Some)
next
  assume "\<exists>i c t. map_of kvs ''id'' = Some i
        \<and> map_of kvs ''current_amount'' = Some (JNum c)
        \<and> map_of kvs ''target_amount'' = Some (JNum t) \<and> 0 \<le> c \<and> c \<le> t"
  then obtain i c t where "map_of kvs ''id'' = Some i"
    and "num_field kvs ''current_amount'' = Some c"
    and "num_field kvs ''target_amount'' = Some t" and "0 \<le> c" and "c \<le> t"
    by (auto simp: num_field_Some)
  then show "goal_ok (JObj kvs)"
    by simp
qed

lemma goal_ok_iff:
  "goal_ok x \<longleftrightarrow>
     (\<exists>kvs i c t. x = JObj kvs \<and> map_of kvs ''id'' = Some i
        \<and> map_of kvs ''current_amount'' = Some (JNum c)
        \<and> map_of kvs ''target_amount'' = Some (JNum t) \<and> 0 \<le> c \<and> c \<le> t)"
  by (cases x) (simp_all add: goal_ok_dict del: goal_ok.simps(1))

lemma contribute_numbers:
  assumes "map_of g ''current_amount'' = Some (JNum c)"
      and "map_of g ''target_amount'' = Some (JNum t)"
  shows "contribute amt g = Inr (AList.update ''current_amount'' (JNum (min (c + amt) t)) g)"
  using assms by (simp add: contribute_def min_def)

lemma goal_ok_contribute:
  assumes "goal_ok (JObj g)"
      and "map_of g ''current_amount'' = Some (JNum c)"
      and "map_of g ''target_amount'' = Some (JNum t)"
      and "0 < amt"
  shows "goal_ok (JObj (AList.update ''current_amount'' (JNum (min (c + amt) t)) g))"
proof -
  from assms(1,2,3) obtain i where i: "map_of g ''id'' = Some i" and c: "0 \<le> c" and t: "c \<le> t"
    by (auto simp: goal_ok_iff)
  from c t assms(4) have "0 \<le> min (c + amt) t" and "min (c + amt) t \<le> t"
    by simp_all
  with i assms(3) show ?thesis
    by (simp add: goal_ok_dict update_conv' del: goal_ok.simps(1))
qed

lemma find_and_add_ok:
  assumes "list_all goal_ok gs"
      and "find (has_id gid) gs = Some (JObj g)"
      and "map_of g ''current_amount'' = Some (JNum c)"
      and "map_of g ''target_amount'' = Some (JNum t)"
      and "0 < amt"
  shows "\<exists>gs'. find_and_add gid amt gs =
                 Inr (Some (AList.update ''current_amount'' (JNum (min (c + amt) t)) g, gs'))
           \<and> length gs' = length gs \<and> list_all goal_ok gs'
           \<and> JObj (AList.update ''current_amount'' (JNum (min (c + amt) t)) g) \<in> set gs'"
  using assms(1,2)
proof (induction gs)
  case Nil
  then show ?case by simp
next
  case (Cons x xs)
  from Cons.prems(1) have okx: "goal_ok x" and okxs: "list_all goal_ok xs"
    by simp_all
  from okx obtain kvs i where x: "x = JObj kvs" and i: "map_of kvs ''id'' = Some i"
    by (auto simp: goal_ok_iff)
  show ?case
  proof (cases "i = JStr gid")
    case True
    with x i Cons.prems(2) have g: "kvs = g"
      by simp
    have "goal_ok (JObj (AList.update ''current_amount'' (JNum (min (c + amt) t)) g))"
      using okx assms(3,4,5) unfolding x g by (rule goal_ok_contribute)
    with True x i g okxs assms(3,4) show ?thesis
      by (simp add: contribute_numbers)
  next
    case False
    with x i Cons.prems(2) have "find (has_id gid) xs = Some (JObj g)"
      by simp
    with Cons.IH okxs obtain gs' where
      "find_and_add gid amt xs =
         Inr (Some (AList.update ''current_amount'' (JNum (min (c + amt) t)) g, gs'))"
      and "length gs' = length xs" and "list_all goal_ok gs'"
      and "JObj (AList.update ''current_amount'' (JNum (min (c + amt) t)) g) \<in> set gs'"
      by blast
    with False x i okx show ?thesis
      by simp
  qed
qed

lemma find_and_add_demo_ok:
  assumes "list_all goal_ok gs" and "list_all has_owner gs"
      and "find (demo_match gid uid) gs = Some (JObj g)"
      and "map_of g ''current_amount'' = Some (JNum c)"
      and "map_of g ''target_amount'' = Some (JNum t)"
      and "0 < amt"
  shows "\<exists>gs'. find_and_add_demo gid (Some uid) amt gs =
                 Inr (Some (AList.update ''current_amount'' (JNum (min (c + amt) t)) g, gs'))
           \<and> length gs' = length gs \<and> list_all goal_ok gs'
           \<and> JObj (AList.update ''current_amount'' (JNum (min (c + amt) t)) g) \<in> set gs'"
  using assms(1,2,3)
proof (induction gs)
  case Nil
  then show ?case by simp
next
  case (Cons x xs)
  from Cons.prems(1) have okx: "goal_ok x" and okxs: "list_all goal_ok xs"
    by simp_all
  from Cons.prems(2) have owx: "has_owner x" and owxs: "list_all has_owner xs"
    by simp_all
  from okx obtain kvs i where x: "x = JObj kvs" and i: "map_of kvs ''id'' = Some i"
    by (auto simp: goal_ok_iff)
  from owx x obtain w where w: "map_of kvs ''user_id'' = Some w"
    by auto
  show ?case
  proof (cases "i = JStr gid \<and> w = uid")
    case True
    with x i w Cons.prems(3) have g: "kvs = g"
      by simp
    have "goal_ok (JObj (AList.update ''current_amount'' (JNum (min (c + amt) t)) g))"
      using okx assms(4,5,6) unfolding x g by (rule goal_ok_contribute)
    with True x i w g okxs assms(4,5) show ?thesis
      by (simp add: contribute_numbers)
  next
    case False
    with x i w Cons.prems(3) have "find (demo_match gid uid) xs = Some (JObj g)"
      by auto
    with Cons.IH okxs owxs obtain gs' where
      "find_and_add_demo gid (Some uid) amt xs =
         Inr (Some (AList.update ''current_amount'' (JNum (min (c + amt) t)) g, gs'))"
      and "length gs' = length xs" and "list_all goal_ok gs'"
      and "JObj (AList.update ''current_amount'' (JNum (min (c + amt) t)) g) \<in> set gs'"
      by blast
    with False x i w okx show ?thesis
      by auto
  qed
qed

lemma add_money_demo_clamped:
  assumes "truthy (case map_of user ''is_demo'' of None \<Rightarrow> JNull | Some v \<Rightarrow> v)"
      and "map_of user ''id'' = Some uid"
      and "list_all goal_ok gs" and "list_all has_owner gs"
      and "find (demo_match gid uid) gs = Some (JObj g)"
      and "map_of g ''current_amount'' = Some (JNum c)"
      and "map_of g ''target_amount'' = Some (JNum t)"
      and "0 < amt"
  shows "\<exists>g' gs'. add_money s gs gid amt user = Inr (g', s, gs')
           \<and> map_of g' ''current_amount'' = Some (JNum (min (c + amt) t))
           \<and> map_of g' ''target_amount'' = Some (JNum t)
           \<and> length gs' = length gs \<and> list_all goal_ok gs' \<and> JObj g' \<in> set gs'"
proof -
  let ?g' = "AList.update ''current_amount'' (JNum (min (c + amt) t)) g"
  from find_and_add_demo_ok [OF assms(3,4,5,6,7,8)]
  obtain gs' where f: "find_and_add_demo gid (Some uid) amt gs = Inr (Some (?g', gs'))"
    and len: "length gs' = length gs" and ok: "list_all goal_ok gs'"
    and mem: "JObj ?g' \<in> set gs'"
    by (elim exE conjE)
  have run: "add_money s gs gid amt user = Inr (?g', s, gs')"
    using assms(1,2) f by (simp add: add_money_def)
  have cur: "map_of ?g' ''current_amount'' = Some (JNum (min (c + amt) t))"
    by (simp add: update_conv')
  have tgt: "map_of ?g' ''target_amount'' = Some (JNum t)"
    using assms(7) by (simp add: update_conv')
  from run cur tgt len ok mem show ?thesis
    by (intro exI [of _ ?g'] exI [of _ gs'] conjI)
qed

section \<open>Lemmas on the goal and rule handlers\<close>

lemma get_goals_save_goals:
  "get_goals (save_goals s f v) f = Inr v"
  by (simp add: get_goals_def save_goals_def load_save_same)

lemma get_rules_save_rules:
  "get_rules (save_rules s f v) f = Inr v"
  by (simp add: get_rules_def save_rules_def load_save_same)



lemma without_id_keyed:
  "list_all has_id_key gs \<Longrightarrow> without_id rid gs = Inr (filter (\<lambda>x. \<not> has_id rid x) gs)"
proof (induction gs)
  case Nil
  then show ?case by simp
next
  case (Cons g gs)
  then obtain kvs v where g: "g = JObj kvs" and v: "map_of kvs ''id'' = Some v"
    by (cases g) auto
  from Cons have "without_id rid gs = Inr (filter (\<lambda>x. \<not> has_id rid x) gs)"
    by simp
  with g v show ?case
    by simp
qed

lemma filter_keyed:
  "list_all has_id_key xs \<Longrightarrow> list_all has_id_key (filter P xs)"
  by (induction xs) simp_all

lemma filter_same_length:
  "\<not> list_ex (has_id rid) xs \<Longrightarrow> length (filter (\<lambda>x. \<not> has_id rid x) xs) = length xs"
  by (simp add: filter_absent)

lemma filter_other_length:
  "list_ex (has_id rid) xs \<Longrightarrow> length (filter (\<lambda>x. \<not> has_id rid x) xs) \<noteq> length xs"
  using filter_present_shorter [of rid xs] by simp

lemma delete_goal_result:
  assumes "map_of user ''id'' = Some uid"
      and "\<not> truthy (dict_get user ''is_demo'' JNull)"
      and "get_goals s (id_text fmt uid) = Inr (JArr gs)"
      and "list_all has_id_key gs"
  shows "delete_goal fmt s demo rid user =
           (if list_ex (has_id rid) gs
            then (Inr [(''ok'', JBool True)],
                  save_goals s (id_text fmt uid) (JArr (filter (\<lambda>x. \<not> has_id rid x) gs)), demo)
            else (Inl (HTTPException 404 ''Goal not found''), s, demo))"
proof (cases "list_ex (has_id rid) gs")
  case True
  with assms show ?thesis
    by (simp add: delete_goal_def without_id_keyed filter_other_length)
next
  case False
  with assms show ?thesis
    by (simp add: delete_goal_def without_id_keyed filter_same_length)
qed

lemma delete_rule_result:
  assumes "map_of user ''id'' = Some uid"
      and "get_rules s (id_text fmt uid) = Inr (JArr rs)"
      and "list_all has_id_key rs"
  shows "delete_rule fmt s rid user =
           (if list_ex (has_id rid) rs
            then (Inr [(''ok'', JBool True)],
                  save_rules s (id_text fmt uid) (JArr (filter (\<lambda>x. \<not> has_id rid x) rs)))
            else (Inl (HTTPException 404 ''Rule not found''), s))"
proof (cases "list_ex (has_id rid) rs")
  case True
  with assms show ?thesis
    by (simp add: delete_rule_def without_id_keyed filter_other_length)
next
  case False
  with assms show ?thesis
    by (simp add: delete_rule_def without_id_keyed filter_same_length)
qed

lemma delete_goal_once:
  assumes "map_of user ''id'' = Some uid"
      and "\<not> truthy (dict_get user ''is_demo'' JNull)"
      and "get_goals s (id_text fmt uid) = Inr (JArr gs)"
      and "list_all has_id_key gs"
  shows "\<exists>s1. delete_goal fmt s demo rid user =
                 (if list_ex (has_id rid) gs then Inr [(''ok'', JBool True)]
                  else Inl (HTTPException 404 ''Goal not found''), s1, demo)
           \<and> get_goals s1 (id_text fmt uid) = Inr (JArr (filter (\<lambda>x. \<not> has_id rid x) gs))
           \<and> (\<not> list_ex (has_id rid) gs \<longrightarrow> s1 = s)
           \<and> delete_goal fmt s1 demo rid user =
                 (Inl (HTTPException 404 ''Goal not found''), s1, demo)"
proof (cases "list_ex (has_id rid) gs")
  case True
  let ?ys = "filter (\<lambda>x. \<not> has_id rid x) gs"
  let ?s1 = "save_goals s (id_text fmt uid) (JArr ?ys)"
  have 1: "delete_goal fmt s demo rid user = (Inr [(''ok'', JBool True)], ?s1, demo)"
    using True by (simp add: delete_goal_result [OF assms])
  have 2: "get_goals ?s1 (id_text fmt uid) = Inr (JArr ?ys)"
    by (rule get_goals_save_goals)
  have 3: "list_all has_id_key ?ys"
    using assms(4) by (rule filter_keyed)
  have 4: "delete_goal fmt ?s1 demo rid user = (Inl (HTTPException 404 ''Goal not found''), ?s1, demo)"
    by (simp add: delete_goal_result [OF assms(1,2) 2 3] filter_gone)
  from True 1 2 4 show ?thesis
    by (intro exI [of _ ?s1]) simp
next
  case False
  have 1: "delete_goal fmt s demo rid user = (Inl (HTTPException 404 ''Goal not found''), s, demo)"
    using False by (simp add: delete_goal_result [OF assms])
  have 2: "get_goals s (id_text fmt uid) = Inr (JArr (filter (\<lambda>x. \<not> has_id rid x) gs))"
    using False assms(3) by (simp add: filter_absent)
  from False 1 2 show ?thesis
    by (intro exI [of _ s]) simp
qed

lemma delete_rule_once:
  assumes "map_of user ''id'' = Some uid"
      and "get_rules s (id_text fmt uid) = Inr (JArr rs)"
      and "list_all has_id_key rs"
  shows "\<exists>s1. delete_rule fmt s rid user =
                 (if list_ex (has_id rid) rs then Inr [(''ok'', JBool True)]
                  else Inl (HTTPException 404 ''Rule not found''), s1)
           \<and> get_rules s1 (id_text fmt uid) = Inr (JArr (filter (\<lambda>x. \<not> has_id rid x) rs))
           \<and> (\<not> list_ex (has_id rid) rs \<longrightarrow> s1 = s)
           \<and> delete_rule fmt s1 rid user = (Inl (HTTPException 404 ''Rule not found''), s1)"
proof (cases "list_ex (has_id rid) rs")
  case True
  let ?ys = "filter (\<lambda>x. \<not> has_id rid x) rs"
  let ?s1 = "save_rules s (id_text fmt uid) (JArr ?ys)"
  have 1: "delete_rule fmt s rid user = (Inr [(''ok'', JBool True)], ?s1)"
    using True by (simp add: delete_rule_result [OF assms])
  have 2: "get_rules ?s1 (id_text fmt uid) = Inr (JArr ?ys)"
    by (rule get_rules_save_rules)
  have 3: "list_all has_id_key ?ys"
    using assms(3) by (rule filter_keyed)
  have 4: "delete_rule fmt ?s1 rid user = (Inl (HTTPException 404 ''Rule not found''), ?s1)"
    by (simp add: delete_rule_result [OF assms(1) 2 3] filter_gone)
  from True 1 2 4 show ?thesis
    by (intro exI [of _ ?s1]) simp
next
  case False
  have 1: "delete_rule fmt s rid user = (Inl (HTTPException 404 ''Rule not found''), s)"
    using False by (simp add: delete_rule_result [OF assms])
  have 2: "get_rules s (id_text fmt uid) = Inr (JArr (filter (\<lambda>x. \<not> has_id rid x) rs))"
    using False assms(2) by (simp add: filter_absent)
  from False 1 2 show ?thesis
    by (intro exI [of _ s]) simp
qed

lemma full_store_lists:
  "get_incomes full_store ''u1'' =
     Inr (JArr [JObj [(''id'', JStr ''a''), (''user_id'', JStr ''u1'')],
                JObj [(''id'', JStr ''b''), (''user_id'', JStr ''u1'')]])"
  "get_expenses full_store ''u1'' =
     Inr (JArr [JObj [(''id'', JStr ''e''), (''user_id'', JStr ''u1'')]])"
  "get_goals full_store ''u1'' = Inr (JArr [JObj demo_goal])"
  "get_rules full_store ''u1'' = Inr (JArr [JObj demo_rule])"
  by (simp_all add: full_store_def demo_store_def get_incomes_def get_expenses_def
        get_goals_def get_rules_def save_goals_def save_rules_def load_data_def save_data_def
        get_user_file_def)

lemma stamp_all_stamped:
  "list_all2 (\<lambda>r r'. map_of r' ''id'' = map_of r ''id''
                      \<and> map_of r' ''user_id'' = Some (JStr u)
                      \<and> map_of r' ''created_at'' \<noteq> None
                      \<and> (map_of r ''created_at'' \<noteq> None \<longrightarrow>
                           map_of r' ''created_at'' = map_of r ''created_at''))
     rs (stamp_all clock u rs)"
  by (auto simp: list_all2_conv_all_nth length_stamp_all nth_stamp_all stamp_id
        stamp_created_at_value stamp_user_id)

section \<open>Lemmas on the credential store and the resolver\<close>

lemma ensure_users_present:
  "ensure_data_dir s ''users.json'' \<noteq> None"
  by (simp add: ensure_data_dir_def)

lemma ensure_idem:
  "ensure_data_dir (ensure_data_dir s) = ensure_data_dir s"
  by (simp add: ensure_data_dir_def)

lemma load_users_snd:
  "snd (load_users s) = ensure_data_dir s"
  by (simp add: load_users_def Let_def)

lemma load_users_again:
  "load_users (ensure_data_dir s) = load_users s"
  by (simp add: load_users_def ensure_idem Let_def)

lemma load_tokens_ensure:
  "load_tokens (ensure_data_dir s) = load_tokens s"
  by (simp add: load_tokens_def ensure_data_dir_def)

lemma load_users_save_users:
  "load_users (save_users s v) = (Inr v, save_users s v)"
  by (simp add: load_users_def save_users_def ensure_data_dir_def Let_def)

lemma load_tokens_save_users:
  "load_tokens (save_users s v) = load_tokens s"
  by (simp add: load_tokens_def save_users_def ensure_data_dir_def)

lemma load_tokens_save_tokens:
  "load_tokens (save_tokens s v) = Inr v"
  by (simp add: load_tokens_def save_tokens_def)


lemma register_local_token_dict:
  "load_tokens s = Inr (JObj tks) \<Longrightarrow>
     register_local_token s tok em = Inr (save_tokens s (JObj (AList.update tok (JStr em) tks)))"
  by (simp add: register_local_token_def)

lemma strip_empty: "py_strip [] = []"
  by (simp add: py_strip_def)

lemma signup_ok:
  assumes v: "validate_email (py_strip (py_lower e)) = (True, [])"
      and pw: "6 \<le> length pw"
      and nm: "2 \<le> length (py_strip n)"
      and us: "fst (load_users s) = Inr (JObj kvs)"
      and fresh: "map_of kvs (py_strip (py_lower e)) = None"
      and tk: "load_tokens s = Inr (JObj tks)"
  shows "signup kdf s uid salt tok now e pw n =
           (Inr [(''access_token'', JStr tok),
                 (''user'', JObj [(''id'', JStr uid),
                                  (''email'', JStr (py_strip (py_lower e))),
                                  (''full_name'', JStr (py_strip n)),
                                  (''isNewAccount'', JBool True)]),
                 (''message'', JStr ''Account created successfully'')],
            save_users
              (save_tokens (ensure_data_dir s)
                 (JObj (AList.update tok (JStr (py_strip (py_lower e))) tks)))
              (JObj (AList.update (py_strip (py_lower e))
                 (JObj [(''id'', JStr uid),
                        (''email'', JStr (py_strip (py_lower e))),
                        (''full_name'', JStr (py_strip n)),
                        (''password_hash'', JStr (kdf pw salt)),
                        (''password_salt'', JStr salt),
                        (''created_at'', JStr now),
                        (''is_new_account'', JBool True)]) kvs)))"
proof -
  from nm have n0: "n \<noteq> []"
    by (auto simp: strip_empty)
  obtain users s1 where l: "load_users s = (users, s1)"
    by (cases "load_users s")
  with us have u: "users = Inr (JObj kvs)"
    by simp
  from l have s1: "s1 = ensure_data_dir s"
    using load_users_snd [of s] by simp
  have r: "register_local_token (ensure_data_dir s) tok (py_strip (py_lower e)) =
             Inr (save_tokens (ensure_data_dir s)
                    (JObj (AList.update tok (JStr (py_strip (py_lower e))) tks)))"
    using tk by (simp add: register_local_token_dict load_tokens_ensure)
  show ?thesis
    using v pw nm n0 fresh
    by (simp add: signup_def Let_def l u r s1)
qed


lemma signup_duplicate:
  assumes v: "validate_email (py_strip (py_lower e)) = (True, [])"
      and pw: "6 \<le> length pw"
      and nm: "2 \<le> length (py_strip n)"
      and us: "fst (load_users s) = Inr (JObj kvs)"
      and dup: "map_of kvs (py_strip (py_lower e)) = Some a"
  shows "signup kdf s uid salt tok now e pw n =
           (Inl (ValueError ''An account with this email already exists''), ensure_data_dir s)"
proof -
  from nm have n0: "n \<noteq> []"
    by (auto simp: strip_empty)
  obtain users s1 where l: "load_users s = (users, s1)"
    by (cases "load_users s")
  with us have u: "users = Inr (JObj kvs)"
    by simp
  from l have s1: "s1 = ensure_data_dir s"
    using load_users_snd [of s] by simp
  show ?thesis
    using v pw nm n0 dup
    by (simp add: signup_def Let_def l u s1)
qed

lemma ensure_after_save_users:
  "ensure_data_dir (save_users s v) = save_users s v"
  by (simp add: ensure_data_dir_def save_users_def)

lemma login_unknown:
  assumes "fst (load_users s) = Inr (JObj kvs)"
      and "map_of kvs (py_strip (py_lower e)) = None"
  shows "login kdf s fsalt tok e pw = (Inl (ValueError ''Invalid email or password''), ensure_data_dir s)"
proof -
  obtain users s1 where l: "load_users s = (users, s1)"
    by (cases "load_users s")
  with assms(1) have u: "users = Inr (JObj kvs)"
    by simp
  from l have s1: "s1 = ensure_data_dir s"
    using load_users_snd [of s] by simp
  show ?thesis
    using assms(2) by (simp add: login_def Let_def l u s1)
qed

lemma login_wrong_password:
  assumes "fst (load_users s) = Inr (JObj kvs)"
      and "map_of kvs (py_strip (py_lower e)) = Some (JObj acct)"
      and "map_of acct ''password_salt'' = Some (JStr salt)"
      and "map_of acct ''password_hash'' = Some h"
      and "h \<noteq> JStr (kdf pw salt)"
  shows "login kdf s fsalt tok e pw = (Inl (ValueError ''Invalid email or password''), ensure_data_dir s)"
proof -
  obtain users s1 where l: "load_users s = (users, s1)"
    by (cases "load_users s")
  with assms(1) have u: "users = Inr (JObj kvs)"
    by simp
  from l have s1: "s1 = ensure_data_dir s"
    using load_users_snd [of s] by simp
  from assms(5) have "JStr (kdf pw salt) \<noteq> h"
    by (rule not_sym)
  then show ?thesis
    using assms(2,3,4) by (simp add: login_def Let_def l u s1)
qed


lemma get_current_user_ok:
  assumes "20 < length tok"
      and "load_tokens s = Inr (JObj tks)"
      and "map_of tks tok = Some (JStr em)" and "em \<noteq> []"
      and "fst (load_users s) = Inr (JObj kvs)"
      and "map_of kvs em = Some (JObj acct)" and "acct \<noteq> []"
      and "map_of acct ''id'' = Some i"
  shows "get_current_user s (Some tok) =
           (Inr [(''id'', i), (''email'', JStr em),
                 (''full_name'', dict_get acct ''full_name'' (JStr ''User'')),
                 (''is_demo'', JBool False),
                 (''is_new_account'', dict_get acct ''is_new_account'' (JBool False)),
                 (''is_admin'', dict_get acct ''is_admin'' (JBool False))],
            ensure_data_dir s)"
proof -
  obtain users s1 where l: "load_users s = (users, s1)"
    by (cases "load_users s")
  with assms(5) have u: "users = Inr (JObj kvs)"
    by simp
  from l have s1: "s1 = ensure_data_dir s"
    using load_users_snd [of s] by simp
  from assms(1) have nd: "tok \<noteq> ''demo-token''"
    by auto
  show ?thesis
    using assms nd by (simp add: get_current_user_def Let_def l u s1 dict_get_def)
qed





lemma demo_email_normal:
  "py_strip (py_lower ''  New.User@Gmail.com '') = ''new.user@gmail.com''"
  by (simp add: py_strip_def py_lower_def lower_char_def is_space_def code_point_def)

lemma demo_email_fixed:
  "py_strip (py_lower ''new.user@gmail.com'') = ''new.user@gmail.com''"
  by (simp add: py_strip_def py_lower_def lower_char_def is_space_def code_point_def)

lemma demo_email_valid:
  "validate_email ''new.user@gmail.com'' = (True, [])"
  by (simp add: validate_email_def py_strip_def py_lower_def lower_char_def is_space_def
        code_point_def email_pattern_match_def match_to_end_def local_char_def domain_char_def
        is_alnum_def is_alpha_def VALID_EMAIL_DOMAINS_def suspicious_patterns_def ends_with_def
        Let_def)

lemma demo_name_length:
  "2 \<le> length (py_strip ''New User'')"
  by (simp add: py_strip_def is_space_def code_point_def)

lemma empty_users:
  "fst (load_users Map.empty) = Inr (JObj [])"
  by (simp add: load_users_def ensure_data_dir_def Let_def)

lemma empty_tokens:
  "load_tokens Map.empty = Inr (JObj [])"
  by (simp add: load_tokens_def)

lemma users_file_not_collection:
  "get_user_file u t \<noteq> ''users.json''"
proof
  assume "get_user_file u t = ''users.json''"
  then have "(u @ ''_'' @ t) @ ''.json'' = ''users'' @ ''.json''"
    by (simp add: get_user_file_def)
  then have "u @ ''_'' @ t = ''users''"
    by (simp only: append_same_eq)
  then have "set (u @ ''_'' @ t) = set ''users''"
    by (rule arg_cong)
  moreover have "CHR ''_'' \<in> set (u @ ''_'' @ t)"
    by simp
  ultimately have "CHR ''_'' \<in> set ''users''"
    by (simp only:)
  then show False
    by simp
qed

lemma tokens_file_not_collection:
  "get_user_file u t \<noteq> ''tokens.json''"
proof
  assume "get_user_file u t = ''tokens.json''"
  then have "(u @ ''_'' @ t) @ ''.json'' = ''tokens'' @ ''.json''"
    by (simp add: get_user_file_def)
  then have "u @ ''_'' @ t = ''tokens''"
    by (simp only: append_same_eq)
  then have "set (u @ ''_'' @ t) = set ''tokens''"
    by (rule arg_cong)
  moreover have "CHR ''_'' \<in> set (u @ ''_'' @ t)"
    by simp
  ultimately have "CHR ''_'' \<in> set ''tokens''"
    by (simp only:)
  then show False
    by simp
qed

lemma load_data_ensure:
  "load_data (ensure_data_dir s) u t = load_data s u t"
  using users_file_not_collection [of u t]
  by (simp add: load_data_def ensure_data_dir_def)

lemma load_data_save_users:
  "load_data (save_users s v) u t = load_data s u t"
  using users_file_not_collection [of u t]
  by (simp add: load_data_def save_users_def ensure_data_dir_def)

lemma load_data_save_tokens:
  "load_data (save_tokens s v) u t = load_data s u t"
  using tokens_file_not_collection [of u t]
  by (simp add: load_data_def save_tokens_def)

lemma load_users_save_data:
  "fst (load_users (save_data s u t v)) = fst (load_users s)"
  using users_file_not_collection [of u t]
  by (simp add: load_users_def save_data_def ensure_data_dir_def Let_def)

lemma create_income_keeps_users:
  assumes "create_income s uuid now body user = Inr (r, s')"
  shows "fst (load_users s') = fst (load_users s)"
proof -
  from assms obtain uid rec0 where run: "add_income s now uid rec0 = Inr (r, s')"
    by (auto simp: create_income_def split: option.splits jval.splits)
  then obtain v where "s' = save_data s uid ''incomes'' v"
    by (auto simp: add_income_def Let_def split: sum.splits jval.splits)
  then show ?thesis
    by (simp add: load_users_save_data)
qed


section \<open>Lemmas on the aggregation reader\<close>

lemma load_data_reads_empty:
  "reads_empty s u t \<Longrightarrow> load_data s u t = Inr (JArr [])"
  by (auto simp: reads_empty_def load_data_def)

lemma load_data_patched:
  assumes "reads_empty s u t"
  shows "load_data (s(get_user_file u t \<mapsto> Parsed (JArr []))) = load_data s"
proof (intro ext)
  fix u' t'
  show "load_data (s(get_user_file u t \<mapsto> Parsed (JArr []))) u' t' = load_data s u' t'"
  proof (cases "get_user_file u' t' = get_user_file u t")
    case True
    with assms show ?thesis
      by (auto simp: reads_empty_def load_data_def)
  next
    case False
    then show ?thesis
      by (simp add: load_data_def)
  qed
qed

lemma reads_empty_ensure:
  "reads_empty (ensure_data_dir s) u t = reads_empty s u t"
  using users_file_not_collection [of u t]
  by (simp add: reads_empty_def ensure_data_dir_def)

lemma ensure_patched:
  "ensure_data_dir (s(get_user_file u t \<mapsto> v)) = (ensure_data_dir s)(get_user_file u t \<mapsto> v)"
  using users_file_not_collection [of u t]
  by (auto simp: ensure_data_dir_def fun_upd_twist)

lemma load_users_patched:
  "load_users (s(get_user_file u t \<mapsto> v)) =
     (fst (load_users s), (ensure_data_dir s)(get_user_file u t \<mapsto> v))"
  using users_file_not_collection [of u t]
  by (simp add: load_users_def Let_def ensure_patched)

lemma get_all_users_data_patched:
  "get_all_users_data (s(get_user_file u t \<mapsto> v)) =
     (fst (get_all_users_data s), (ensure_data_dir s)(get_user_file u t \<mapsto> v))"
  by (simp add: get_all_users_data_def load_users_patched split: prod.splits)

lemma get_all_users_data_snd:
  "snd (get_all_users_data s) = ensure_data_dir s"
  by (simp add: get_all_users_data_def load_users_def Let_def)

lemma readers_patched:
  assumes "reads_empty s u t"
  shows "get_user_incomes (s(get_user_file u t \<mapsto> Parsed (JArr []))) = get_user_incomes s"
    and "get_user_expenses (s(get_user_file u t \<mapsto> Parsed (JArr []))) = get_user_expenses s"
    and "get_user_rules (s(get_user_file u t \<mapsto> Parsed (JArr []))) = get_user_rules s"
  by (simp_all add: fun_eq_iff get_user_incomes_def get_user_expenses_def get_user_rules_def
        get_incomes_def get_expenses_def get_rules_def load_data_patched [OF assms])

lemma dashboard_user_patched:
  assumes "reads_empty s u t"
  shows "dashboard_user hash fmt round2 parse thirty ninety (s(get_user_file u t \<mapsto> Parsed (JArr [])))
           = dashboard_user hash fmt round2 parse thirty ninety s"
proof (intro ext)
  fix user acc
  show "dashboard_user hash fmt round2 parse thirty ninety
          (s(get_user_file u t \<mapsto> Parsed (JArr []))) user acc =
        dashboard_user hash fmt round2 parse thirty ninety s user acc"
    unfolding dashboard_user_def readers_patched [OF assms] by (rule refl)
qed

lemma trend_of_patched:
  assumes "reads_empty s u t"
  shows "trend_of hash fmt parse (s(get_user_file u t \<mapsto> Parsed (JArr []))) = trend_of hash fmt parse s"
proof (intro ext)
  fix user
  show "trend_of hash fmt parse (s(get_user_file u t \<mapsto> Parsed (JArr []))) user =
        trend_of hash fmt parse s user"
    unfolding trend_of_def readers_patched [OF assms] by (rule refl)
qed

lemma dashboard_patched:
  assumes "reads_empty s u t"
  shows "fst (get_admin_dashboard hash fmt round2 parse thirty ninety ts
               (s(get_user_file u t \<mapsto> Parsed (JArr [])))) =
         fst (get_admin_dashboard hash fmt round2 parse thirty ninety ts s)"
proof -
  from assms have e: "reads_empty (ensure_data_dir s) u t"
    by (simp add: reads_empty_ensure)
  obtain loaded s1 where l: "get_all_users_data s = (loaded, s1)"
    by (cases "get_all_users_data s")
  then have s1: "s1 = ensure_data_dir s"
    using get_all_users_data_snd [of s] by simp
  have p: "get_all_users_data (s(get_user_file u t \<mapsto> Parsed (JArr []))) =
             (loaded, (ensure_data_dir s)(get_user_file u t \<mapsto> Parsed (JArr [])))"
    by (simp add: get_all_users_data_patched l)
  show ?thesis
    by (simp add: get_admin_dashboard_def l p s1 dashboard_user_patched [OF e]
          trend_of_patched [OF e])
qed

lemma dashboard_user_nothing:
  assumes "map_of user ''id'' = Some (JStr u)"
      and "reads_empty s u ''incomes''" and "reads_empty s u ''expenses''"
      and "reads_empty s u ''rules''"
  shows "dashboard_user hash fmt round2 parse thirty ninety s user acc = Some acc"
proof -
  have "get_user_incomes s u = Inr (JArr [])" "get_user_expenses s u = Inr (JArr [])"
    "get_user_rules s u = Inr (JArr [])"
    using assms(2,3,4)
    by (simp_all add: get_user_incomes_def get_user_expenses_def get_user_rules_def
          get_incomes_def get_expenses_def get_rules_def load_data_reads_empty)
  with assms(1) show ?thesis
    by (simp add: dashboard_user_def sum_amounts_def low_income_alert_def id_text_def
          anonymize_user_id_def Let_def)
qed

lemma broken_store_reads_empty:
  "reads_empty broken_store ''uid1'' ''incomes''"
  "reads_empty broken_store ''uid1'' ''expenses''"
  "reads_empty broken_store ''uid1'' ''rules''"
  by (simp_all add: reads_empty_def broken_store_def save_users_def ensure_data_dir_def
        get_user_file_def)

lemma broken_users:
  "get_all_users_data broken_store =
     (Some [[(''id'', JStr ''uid1''), (''email'', JStr ''new.user@gmail.com''),
             (''created_at'', JStr [])]], broken_store)"
  by (simp add: get_all_users_data_def load_users_def ensure_data_dir_def broken_store_def
        save_users_def Let_def dict_get_def get_user_file_def)

lemma broken_dashboard:
  "fst (get_admin_dashboard (\<lambda>x. 42) (\<lambda>x. []) (\<lambda>x. x) (\<lambda>x. None) ''2025-12-05T00:00:00''
          ''2025-10-06T00:00:00'' ''2026-01-04T00:00:00'' broken_store) =
     Inr [(''summary'',
             JObj [(''total_users'', JNum 1), (''active_users_30d'', JNum 0),
                   (''total_income'', JNum 0), (''total_expenses'', JNum 0),
                   (''total_savings'', JNum 0)]),
          (''income_trends'', JArr []), (''low_income_alerts'', JArr []),
          (''large_transactions'', JArr []), (''rule_usage'', JArr []),
          (''timestamp'', JStr ''2026-01-04T00:00:00'')]"
proof -
  have u: "map_of [(''id'', JStr ''uid1''), (''email'', JStr ''new.user@gmail.com''),
             (''created_at'', JStr [])] ''id'' = Some (JStr ''uid1'')"
    by simp
  have inc: "get_user_incomes broken_store ''uid1'' = Inr (JArr [])"
    using broken_store_reads_empty(1)
    by (simp add: get_user_incomes_def get_incomes_def load_data_reads_empty)
  show ?thesis
    by (simp add: get_admin_dashboard_def broken_users
          dashboard_user_nothing [OF u broken_store_reads_empty] trend_of_def inc id_text_def)
qed

lemma bind_none:
  "(m \<bind> (\<lambda>x. None)) = None"
  by (cases m) simp_all

lemma for_each_fails:
  assumes "x \<in> set xs" and "\<And>a. f x a = None"
  shows "for_each f xs acc = None"
  using assms(1)
proof (induction xs arbitrary: acc)
  case Nil
  then show ?case by simp
next
  case (Cons y ys)
  show ?case
  proof (cases "f y acc")
    case None
    then show ?thesis by simp
  next
    case (Some acc')
    show ?thesis
    proof (cases "x = y")
      case True
      with Some assms(2) [of acc] show ?thesis by simp
    next
      case False
      with Cons.prems have "x \<in> set ys" by simp
      then have "for_each f ys acc' = None" by (rule Cons.IH)
      with Some show ?thesis by simp
    qed
  qed
qed

lemma load_data_raises:
  "s (get_user_file u t) = Some (Unreadable e) \<Longrightarrow> load_data s u t = Inl e"
  by (simp add: load_data_def)

lemma dashboard_user_raises:
  assumes "map_of user ''id'' = Some uid"
      and "t \<in> {''incomes'', ''expenses'', ''rules''}"
      and "s (get_user_file (id_text fmt uid) t) = Some (Unreadable e)"
  shows "dashboard_user hash fmt rnd parse thirty ninety s user acc = None"
proof -
  from assms(3) have l: "load_data s (id_text fmt uid) t = Inl e"
    by (rule load_data_raises)
  from assms(2) consider "t = ''incomes''" | "t = ''expenses''" | "t = ''rules''"
    by auto
  then show ?thesis
  proof cases
    case 1
    with l have "caught (get_user_incomes s (id_text fmt uid)) = None"
      by (simp add: get_user_incomes_def get_incomes_def)
    with assms(1) show ?thesis
      by (simp add: dashboard_user_def bind_none)
  next
    case 2
    with l have "caught (get_user_expenses s (id_text fmt uid)) = None"
      by (simp add: get_user_expenses_def get_expenses_def)
    with assms(1) show ?thesis
      by (simp add: dashboard_user_def bind_none)
  next
    case 3
    with l have "caught (get_user_rules s (id_text fmt uid)) = None"
      by (simp add: get_user_rules_def get_rules_def)
    with assms(1) show ?thesis
      by (simp add: dashboard_user_def bind_none)
  qed
qed

lemma ensure_keeps_collections:
  "ensure_data_dir s (get_user_file u t) = s (get_user_file u t)"
  using users_file_not_collection [of u t]
  by (simp add: ensure_data_dir_def)

lemma undecodable_users:
  "get_all_users_data undecodable_store =
     (Some [[(''id'', JStr ''uid1''), (''email'', JStr ''new.user@gmail.com''),
             (''created_at'', JStr [])]], undecodable_store)"
  by (simp add: get_all_users_data_def load_users_def ensure_data_dir_def undecodable_store_def
        save_users_def Let_def dict_get_def get_user_file_def)

lemma emptied_store_patched:
  "emptied_store = broken_store(get_user_file ''uid1'' ''incomes'' \<mapsto> Parsed (JArr []))"
  by (simp add: emptied_store_def undecodable_store_def broken_store_def save_data_def)

lemma emptied_dashboard:
  "fst (get_admin_dashboard (\<lambda>x. 42) (\<lambda>x. []) (\<lambda>x. x) (\<lambda>x. None) ''2025-12-05T00:00:00''
          ''2025-10-06T00:00:00'' ''2026-01-04T00:00:00'' emptied_store) =
     Inr [(''summary'',
             JObj [(''total_users'', JNum 1), (''active_users_30d'', JNum 0),
                   (''total_income'', JNum 0), (''total_expenses'', JNum 0),
                   (''total_savings'', JNum 0)]),
          (''income_trends'', JArr []), (''low_income_alerts'', JArr []),
          (''large_transactions'', JArr []), (''rule_usage'', JArr []),
          (''timestamp'', JStr ''2026-01-04T00:00:00'')]"
  by (simp only: emptied_store_patched dashboard_patched [OF broken_store_reads_empty(1)]
        broken_dashboard)

section \<open>Properties of the specification\<close>

text \<open>
  C1. Two signups whose emails are equal after lower-casing and stripping, with an email
  that \<open>validate_email\<close> accepts, passwords of at least 6 characters and names of at least
  2 characters after stripping, on a registry (a JSON object, or a missing or reads_empty
  file) that does not hold the email yet: the first succeeds and the stored account has
  \<open>is_new_account = True\<close>; the second raises the duplicate-account error and leaves the
  data directory, hence the registry, exactly as the first left it.
\<close>

theorem C1_signup_once:
  assumes "py_strip (py_lower e2) = py_strip (py_lower e1)"
      and "validate_email (py_strip (py_lower e1)) = (True, [])"
      and "6 \<le> length pw1" and "6 \<le> length pw2"
      and "2 \<le> length (py_strip n1)" and "2 \<le> length (py_strip n2)"
      and "fst (load_users s) = Inr (JObj kvs)"
      and "map_of kvs (py_strip (py_lower e1)) = None"
      and "load_tokens s = Inr (JObj tks)"
  shows "\<exists>res acct s1.
           signup kdf s uid1 salt1 tok1 now1 e1 pw1 n1 = (Inr res, s1)
           \<and> fst (load_users s1) = Inr (JObj (AList.update (py_strip (py_lower e1)) (JObj acct) kvs))
           \<and> map_of acct ''is_new_account'' = Some (JBool True)
           \<and> signup kdf s1 uid2 salt2 tok2 now2 e2 pw2 n2 =
               (Inl (ValueError ''An account with this email already exists''), s1)"
proof -
  let ?em = "py_strip (py_lower e1)"
  let ?acct = "[(''id'', JStr uid1), (''email'', JStr ?em), (''full_name'', JStr (py_strip n1)),
                (''password_hash'', JStr (kdf pw1 salt1)), (''password_salt'', JStr salt1),
                (''created_at'', JStr now1), (''is_new_account'', JBool True)]"
  let ?s1 = "save_users
               (save_tokens (ensure_data_dir s) (JObj (AList.update tok1 (JStr ?em) tks)))
               (JObj (AList.update ?em (JObj ?acct) kvs))"
  have first: "signup kdf s uid1 salt1 tok1 now1 e1 pw1 n1 =
                 (Inr [(''access_token'', JStr tok1),
                       (''user'', JObj [(''id'', JStr uid1), (''email'', JStr ?em),
                                        (''full_name'', JStr (py_strip n1)),
                                        (''isNewAccount'', JBool True)]),
                       (''message'', JStr ''Account created successfully'')], ?s1)"
    using assms(2,3,5,7,8,9) by (rule signup_ok)
  have stored: "fst (load_users ?s1) = Inr (JObj (AList.update ?em (JObj ?acct) kvs))"
    by (simp add: load_users_save_users)
  have flag: "map_of ?acct ''is_new_account'' = Some (JBool True)"
    by simp
  have present: "map_of (AList.update ?em (JObj ?acct) kvs) (py_strip (py_lower e2)) = Some (JObj ?acct)"
    using assms(1) by (simp add: update_conv')
  have v2: "validate_email (py_strip (py_lower e2)) = (True, [])"
    using assms(1,2) by simp
  have "signup kdf ?s1 uid2 salt2 tok2 now2 e2 pw2 n2 =
          (Inl (ValueError ''An account with this email already exists''), ensure_data_dir ?s1)"
    using v2 assms(4,6) stored present by (rule signup_duplicate)
  then have second: "signup kdf ?s1 uid2 salt2 tok2 now2 e2 pw2 n2 =
          (Inl (ValueError ''An account with this email already exists''), ?s1)"
    by (simp only: ensure_after_save_users)
  from first stored flag second show ?thesis
    by (intro exI conjI)
qed


theorem C1_signup_once_witness:
  "py_strip (py_lower ''new.user@gmail.com'') = py_strip (py_lower ''  New.User@Gmail.com '')
   \<and> validate_email (py_strip (py_lower ''  New.User@Gmail.com '')) = (True, [])
   \<and> 6 \<le> length ''secret1'' \<and> 6 \<le> length ''another2''
   \<and> 2 \<le> length (py_strip ''New User'') \<and> 2 \<le> length (py_strip ''New User'')
   \<and> fst (load_users Map.empty) = Inr (JObj [])
   \<and> map_of [] (py_strip (py_lower ''  New.User@Gmail.com '')) = (None :: jval option)
   \<and> load_tokens Map.empty = Inr (JObj [])
   \<and> (\<exists>res s1.
         signup toy_kdf Map.empty ''uid1'' ''salt1'' token_one ''2026-01-01T00:00:00''
           ''  New.User@Gmail.com '' ''secret1'' ''New User'' = (Inr res, s1)
         \<and> signup toy_kdf s1 ''uid2'' ''salt2'' token_two ''2026-01-02T00:00:00''
             ''new.user@gmail.com'' ''another2'' ''New User'' =
             (Inl (ValueError ''An account with this email already exists''), s1))"
proof -
  have h1: "py_strip (py_lower ''new.user@gmail.com'') =
              py_strip (py_lower ''  New.User@Gmail.com '')"
    by (simp only: demo_email_normal demo_email_fixed)
  have h2: "validate_email (py_strip (py_lower ''  New.User@Gmail.com '')) = (True, [])"
    by (simp only: demo_email_normal demo_email_valid)
  have h3: "6 \<le> length ''secret1''" by simp
  have h4: "6 \<le> length ''another2''" by simp
  have h8: "map_of [] (py_strip (py_lower ''  New.User@Gmail.com '')) = (None :: jval option)"
    by simp
  from C1_signup_once [OF h1 h2 h3 h4 demo_name_length demo_name_length empty_users h8
      empty_tokens, of toy_kdf "''uid1''" "''salt1''" token_one "''2026-01-01T00:00:00''"
      "''uid2''" "''salt2''" token_two "''2026-01-02T00:00:00''"]
  obtain res s1 where
    a: "signup toy_kdf Map.empty ''uid1'' ''salt1'' token_one ''2026-01-01T00:00:00''
           ''  New.User@Gmail.com '' ''secret1'' ''New User'' = (Inr res, s1)"
    and b: "signup toy_kdf s1 ''uid2'' ''salt2'' token_two ''2026-01-02T00:00:00''
             ''new.user@gmail.com'' ''another2'' ''New User'' =
             (Inl (ValueError ''An account with this email already exists''), s1)"
    by (elim exE conjE)
  from a b have "\<exists>res s1.
         signup toy_kdf Map.empty ''uid1'' ''salt1'' token_one ''2026-01-01T00:00:00''
           ''  New.User@Gmail.com '' ''secret1'' ''New User'' = (Inr res, s1)
         \<and> signup toy_kdf s1 ''uid2'' ''salt2'' token_two ''2026-01-02T00:00:00''
             ''new.user@gmail.com'' ''another2'' ''New User'' =
             (Inl (ValueError ''An account with this email already exists''), s1)"
    by (intro exI conjI)
  with h1 h2 h3 h4 demo_name_length empty_users h8 empty_tokens show ?thesis
    by (intro conjI)
qed

text \<open>
  C3. On a registry that is a JSON object: a login for a registered account (with a salt
  and a hash stored) whose password does not hash to the stored hash, and a login for an
  email that is not registered, both raise \<open>ValueError\<close> with the same message, so the two
  error values are equal; neither call adds a token to the token registry.
\<close>

theorem C3_login_failures_identical:
  assumes "fst (load_users s) = Inr (JObj kvs)"
      and "map_of kvs (py_strip (py_lower e)) = Some (JObj acct)"
      and "map_of acct ''password_salt'' = Some (JStr salt)"
      and "map_of acct ''password_hash'' = Some h"
      and "h \<noteq> JStr (kdf pw salt)"
      and "fst (load_users s') = Inr (JObj kvs')"
      and "map_of kvs' (py_strip (py_lower e')) = None"
  shows "fst (login kdf s fsalt tok e pw) = Inl (ValueError ''Invalid email or password'')
       \<and> fst (login kdf s' fsalt' tok' e' pw') = Inl (ValueError ''Invalid email or password'')
       \<and> fst (login kdf s fsalt tok e pw) = fst (login kdf s' fsalt' tok' e' pw')
       \<and> load_tokens (snd (login kdf s fsalt tok e pw)) = load_tokens s
       \<and> load_tokens (snd (login kdf s' fsalt' tok' e' pw')) = load_tokens s'"
proof -
  have a: "login kdf s fsalt tok e pw = (Inl (ValueError ''Invalid email or password''), ensure_data_dir s)"
    using assms(1,2,3,4,5) by (rule login_wrong_password)
  have b: "login kdf s' fsalt' tok' e' pw' =
             (Inl (ValueError ''Invalid email or password''), ensure_data_dir s')"
    using assms(6,7) by (rule login_unknown)
  show ?thesis
    by (simp add: a b load_tokens_ensure)
qed


theorem C3_login_failures_identical_witness:
  "fst (load_users (save_users Map.empty
          (JObj [(''new.user@gmail.com'',
                  JObj [(''id'', JStr ''uid1''), (''password_hash'', JStr ''salt1secret1''),
                        (''password_salt'', JStr ''salt1'')])]))) =
     Inr (JObj [(''new.user@gmail.com'',
            JObj [(''id'', JStr ''uid1''), (''password_hash'', JStr ''salt1secret1''),
                  (''password_salt'', JStr ''salt1'')])])
   \<and> JStr ''salt1secret1'' \<noteq> JStr (toy_kdf ''wrong-password'' ''salt1'')
   \<and> fst (load_users Map.empty) = Inr (JObj [])
   \<and> fst (login toy_kdf
            (save_users Map.empty
               (JObj [(''new.user@gmail.com'',
                  JObj [(''id'', JStr ''uid1''), (''password_hash'', JStr ''salt1secret1''),
                        (''password_salt'', JStr ''salt1'')])]))
            ''salt9'' token_one ''new.user@gmail.com'' ''wrong-password'') =
       fst (login toy_kdf Map.empty ''salt9'' token_two ''new.user@gmail.com'' ''secret1'')"
proof -
  let ?acct = "[(''id'', JStr ''uid1''), (''password_hash'', JStr ''salt1secret1''),
                (''password_salt'', JStr ''salt1'')]"
  let ?kvs = "[(''new.user@gmail.com'', JObj ?acct)]"
  have h1: "fst (load_users (save_users Map.empty (JObj ?kvs))) = Inr (JObj ?kvs)"
    by (simp add: load_users_save_users)
  have h2: "map_of ?kvs (py_strip (py_lower ''new.user@gmail.com'')) = Some (JObj ?acct)"
    by (simp add: demo_email_fixed)
  have h3: "map_of ?acct ''password_salt'' = Some (JStr ''salt1'')"
    by simp
  have h4: "map_of ?acct ''password_hash'' = Some (JStr ''salt1secret1'')"
    by simp
  have h5: "JStr ''salt1secret1'' \<noteq> JStr (toy_kdf ''wrong-password'' ''salt1'')"
    by (simp add: toy_kdf_def)
  have h7: "map_of [] (py_strip (py_lower ''new.user@gmail.com'')) = (None :: jval option)"
    by simp
  have "fst (login toy_kdf (save_users Map.empty (JObj ?kvs)) ''salt9'' token_one
               ''new.user@gmail.com'' ''wrong-password'') =
          fst (login toy_kdf Map.empty ''salt9'' token_two ''new.user@gmail.com'' ''secret1'')"
    using C3_login_failures_identical [where kdf = toy_kdf and pw = "''wrong-password''"
        and salt = "''salt1''" and tok = token_one and tok' = token_two
        and pw' = "''secret1''" and fsalt = "''salt9''" and fsalt' = "''salt9''",
        OF h1 h2 h3 h4 h5 empty_users h7]
    by (elim conjE)
  with h1 h5 empty_users show ?thesis
    by (intro conjI)
qed






text \<open>
  C5. Deleting by id from a stored list of records: the call succeeds exactly when some
  record carries that id, and the collection listed afterwards is the old one without the
  records of that id (exactly one record fewer when the ids of the partition are unique);
  a second call with the same id does not succeed; a call that does not succeed leaves
  the data directory as it was. \<open>delete_income\<close> and \<open>delete_expense\<close> of the store return
  \<open>True\<close> and \<open>False\<close>; for goals and rules the deletion is the code of \<open>delete_goal\<close> (for an
  identity that is not the demo user) and of \<open>delete_rule\<close>, which answer \<open>{"ok": True}\<close>
  and raise the 404 error. The records are dicts, and those of goals and rules have an
  \<open>id\<close>, which these two handlers read with a subscript.
\<close>

theorem C5_delete_once:
  assumes "get_incomes s u = Inr (JArr xs)" and "list_all is_dict xs"
      and "get_expenses s u = Inr (JArr ys)" and "list_all is_dict ys"
      and "map_of user ''id'' = Some uid"
      and "\<not> truthy (dict_get user ''is_demo'' JNull)"
      and "get_goals s (id_text fmt uid) = Inr (JArr gs)" and "list_all has_id_key gs"
      and "get_rules s (id_text fmt uid) = Inr (JArr rs)" and "list_all has_id_key rs"
  shows "(\<exists>s1. delete_income s u rid = Inr (list_ex (has_id rid) xs, s1)
            \<and> get_incomes s1 u = Inr (JArr (filter (\<lambda>x. \<not> has_id rid x) xs))
            \<and> (\<not> list_ex (has_id rid) xs \<longrightarrow> s1 = s)
            \<and> delete_income s1 u rid = Inr (False, s1))
       \<and> (\<exists>s1. delete_expense s u rid = Inr (list_ex (has_id rid) ys, s1)
            \<and> get_expenses s1 u = Inr (JArr (filter (\<lambda>x. \<not> has_id rid x) ys))
            \<and> (\<not> list_ex (has_id rid) ys \<longrightarrow> s1 = s)
            \<and> delete_expense s1 u rid = Inr (False, s1))
       \<and> (\<exists>s1. delete_goal fmt s demo rid user =
                   (if list_ex (has_id rid) gs then Inr [(''ok'', JBool True)]
                    else Inl (HTTPException 404 ''Goal not found''), s1, demo)
            \<and> get_goals s1 (id_text fmt uid) = Inr (JArr (filter (\<lambda>x. \<not> has_id rid x) gs))
            \<and> (\<not> list_ex (has_id rid) gs \<longrightarrow> s1 = s)
            \<and> delete_goal fmt s1 demo rid user =
                 (Inl (HTTPException 404 ''Goal not found''), s1, demo))
       \<and> (\<exists>s1. delete_rule fmt s rid user =
                   (if list_ex (has_id rid) rs then Inr [(''ok'', JBool True)]
                    else Inl (HTTPException 404 ''Rule not found''), s1)
            \<and> get_rules s1 (id_text fmt uid) = Inr (JArr (filter (\<lambda>x. \<not> has_id rid x) rs))
            \<and> (\<not> list_ex (has_id rid) rs \<longrightarrow> s1 = s)
            \<and> delete_rule fmt s1 rid user = (Inl (HTTPException 404 ''Rule not found''), s1))
       \<and> (distinct (map get_id xs) \<and> list_ex (has_id rid) xs \<longrightarrow>
            length xs = Suc (length (filter (\<lambda>x. \<not> has_id rid x) xs)))
       \<and> (distinct (map get_id ys) \<and> list_ex (has_id rid) ys \<longrightarrow>
            length ys = Suc (length (filter (\<lambda>x. \<not> has_id rid x) ys)))
       \<and> (distinct (map get_id gs) \<and> list_ex (has_id rid) gs \<longrightarrow>
            length gs = Suc (length (filter (\<lambda>x. \<not> has_id rid x) gs)))
       \<and> (distinct (map get_id rs) \<and> list_ex (has_id rid) rs \<longrightarrow>
            length rs = Suc (length (filter (\<lambda>x. \<not> has_id rid x) rs)))"
proof (intro conjI)
  show "\<exists>s1. delete_income s u rid = Inr (list_ex (has_id rid) xs, s1)
            \<and> get_incomes s1 u = Inr (JArr (filter (\<lambda>x. \<not> has_id rid x) xs))
            \<and> (\<not> list_ex (has_id rid) xs \<longrightarrow> s1 = s)
            \<and> delete_income s1 u rid = Inr (False, s1)"
    using assms(1,2) by (rule delete_income_once)
  show "\<exists>s1. delete_expense s u rid = Inr (list_ex (has_id rid) ys, s1)
            \<and> get_expenses s1 u = Inr (JArr (filter (\<lambda>x. \<not> has_id rid x) ys))
            \<and> (\<not> list_ex (has_id rid) ys \<longrightarrow> s1 = s)
            \<and> delete_expense s1 u rid = Inr (False, s1)"
    using assms(3,4) by (rule delete_expense_once)
  show "\<exists>s1. delete_goal fmt s demo rid user =
                   (if list_ex (has_id rid) gs then Inr [(''ok'', JBool True)]
                    else Inl (HTTPException 404 ''Goal not found''), s1, demo)
            \<and> get_goals s1 (id_text fmt uid) = Inr (JArr (filter (\<lambda>x. \<not> has_id rid x) gs))
            \<and> (\<not> list_ex (has_id rid) gs \<longrightarrow> s1 = s)
            \<and> delete_goal fmt s1 demo rid user =
                 (Inl (HTTPException 404 ''Goal not found''), s1, demo)"
    using assms(5,6,7,8) by (rule delete_goal_once)
  show "\<exists>s1. delete_rule fmt s rid user =
                   (if list_ex (has_id rid) rs then Inr [(''ok'', JBool True)]
                    else Inl (HTTPException 404 ''Rule not found''), s1)
            \<and> get_rules s1 (id_text fmt uid) = Inr (JArr (filter (\<lambda>x. \<not> has_id rid x) rs))
            \<and> (\<not> list_ex (has_id rid) rs \<longrightarrow> s1 = s)
            \<and> delete_rule fmt s1 rid user = (Inl (HTTPException 404 ''Rule not found''), s1)"
    using assms(5,9,10) by (rule delete_rule_once)
  show "distinct (map get_id xs) \<and> list_ex (has_id rid) xs \<longrightarrow>
            length xs = Suc (length (filter (\<lambda>x. \<not> has_id rid x) xs))"
    using filter_unique_id [of xs rid] by simp
  show "distinct (map get_id ys) \<and> list_ex (has_id rid) ys \<longrightarrow>
            length ys = Suc (length (filter (\<lambda>x. \<not> has_id rid x) ys))"
    using filter_unique_id [of ys rid] by simp
  show "distinct (map get_id gs) \<and> list_ex (has_id rid) gs \<longrightarrow>
            length gs = Suc (length (filter (\<lambda>x. \<not> has_id rid x) gs))"
    using filter_unique_id [of gs rid] by simp
  show "distinct (map get_id rs) \<and> list_ex (has_id rid) rs \<longrightarrow>
            length rs = Suc (length (filter (\<lambda>x. \<not> has_id rid x) rs))"
    using filter_unique_id [of rs rid] by simp
qed

theorem C5_delete_once_witness:
  "get_incomes full_store ''u1'' =
     Inr (JArr [JObj [(''id'', JStr ''a''), (''user_id'', JStr ''u1'')],
                JObj [(''id'', JStr ''b''), (''user_id'', JStr ''u1'')]])
   \<and> list_all is_dict [JObj [(''id'', JStr ''a''), (''user_id'', JStr ''u1'')],
           JObj [(''id'', JStr ''b''), (''user_id'', JStr ''u1'')]]
   \<and> get_expenses full_store ''u1'' =
       Inr (JArr [JObj [(''id'', JStr ''e''), (''user_id'', JStr ''u1'')]])
   \<and> list_all is_dict [JObj [(''id'', JStr ''e''), (''user_id'', JStr ''u1'')]]
   \<and> map_of demo_identity ''id'' = Some (JStr ''u1'')
   \<and> \<not> truthy (dict_get demo_identity ''is_demo'' JNull)
   \<and> get_goals full_store (id_text (\<lambda>x. []) (JStr ''u1'')) = Inr (JArr [JObj demo_goal])
   \<and> list_all has_id_key [JObj demo_goal]
   \<and> get_rules full_store (id_text (\<lambda>x. []) (JStr ''u1'')) = Inr (JArr [JObj demo_rule])
   \<and> list_all has_id_key [JObj demo_rule]
   \<and> (\<exists>s1. delete_income full_store ''u1'' ''a'' = Inr (True, s1)
          \<and> get_incomes s1 ''u1'' = Inr (JArr [JObj [(''id'', JStr ''b''), (''user_id'', JStr ''u1'')]])
          \<and> delete_income s1 ''u1'' ''a'' = Inr (False, s1))
   \<and> (\<exists>s1. delete_goal (\<lambda>x. []) full_store [] ''a'' demo_identity =
               (Inl (HTTPException 404 ''Goal not found''), s1, [])
          \<and> get_goals s1 ''u1'' = Inr (JArr [JObj demo_goal])
          \<and> s1 = full_store)
   \<and> (\<exists>s1. delete_rule (\<lambda>x. []) full_store ''r1'' demo_identity = (Inr [(''ok'', JBool True)], s1)
          \<and> get_rules s1 ''u1'' = Inr (JArr [])
          \<and> delete_rule (\<lambda>x. []) s1 ''r1'' demo_identity =
               (Inl (HTTPException 404 ''Rule not found''), s1))"
proof -
  have d1: "list_all is_dict [JObj [(''id'', JStr ''a''), (''user_id'', JStr ''u1'')],
           JObj [(''id'', JStr ''b''), (''user_id'', JStr ''u1'')]]"
    by simp
  have d2: "list_all is_dict [JObj [(''id'', JStr ''e''), (''user_id'', JStr ''u1'')]]"
    by simp
  have h3: "map_of demo_identity ''id'' = Some (JStr ''u1'')"
    by (simp add: demo_identity_def)
  have h4: "\<not> truthy (dict_get demo_identity ''is_demo'' JNull)"
    by (simp add: demo_identity_def dict_get_def)
  have h5: "get_goals full_store (id_text (\<lambda>x. []) (JStr ''u1'')) = Inr (JArr [JObj demo_goal])"
    by (simp add: id_text_def full_store_lists)
  have k5: "list_all has_id_key [JObj demo_goal]"
    by (simp add: demo_goal_def)
  have h6: "get_rules full_store (id_text (\<lambda>x. []) (JStr ''u1'')) = Inr (JArr [JObj demo_rule])"
    by (simp add: id_text_def full_store_lists)
  have k6: "list_all has_id_key [JObj demo_rule]"
    by (simp add: demo_rule_def)
  note all = C5_delete_once [where demo = "[]", OF full_store_lists(1) d1 full_store_lists(2) d2
      h3 h4 h5 k5 h6 k6]
  have inc: "\<exists>s1. delete_income full_store ''u1'' ''a'' = Inr (True, s1)
          \<and> get_incomes s1 ''u1'' = Inr (JArr [JObj [(''id'', JStr ''b''), (''user_id'', JStr ''u1'')]])
          \<and> delete_income s1 ''u1'' ''a'' = Inr (False, s1)"
    using conjunct1 [OF all [of "''a''"]] by simp
  have goal: "\<exists>s1. delete_goal (\<lambda>x. []) full_store [] ''a'' demo_identity =
               (Inl (HTTPException 404 ''Goal not found''), s1, [])
          \<and> get_goals s1 ''u1'' = Inr (JArr [JObj demo_goal])
          \<and> s1 = full_store"
    using conjunct1 [OF conjunct2 [OF conjunct2 [OF all [of "''a''"]]]]
    by (simp add: id_text_def demo_goal_def)
  have rule: "\<exists>s1. delete_rule (\<lambda>x. []) full_store ''r1'' demo_identity = (Inr [(''ok'', JBool True)], s1)
          \<and> get_rules s1 ''u1'' = Inr (JArr [])
          \<and> delete_rule (\<lambda>x. []) s1 ''r1'' demo_identity =
               (Inl (HTTPException 404 ''Rule not found''), s1)"
    using conjunct1 [OF conjunct2 [OF conjunct2 [OF conjunct2 [OF all [of "''r1''"]]]]]
    by (simp add: id_text_def demo_rule_def)
  from full_store_lists(1) d1 full_store_lists(2) d2 h3 h4 h5 k5 h6 k6 inc goal rule show ?thesis
    by (intro conjI)
qed

text \<open>
  C6, as the code has it. The store sets \<open>user_id\<close>, and assigns \<open>created_at\<close> when the
  record has none and keeps it otherwise; it never assigns \<open>id\<close>: the stored and returned
  record has the \<open>id\<close> entry of the input record, or none when the input had none. Stated
  for the four append operations of the store, \<open>add_income\<close>, \<open>add_expense\<close>,
  \<open>add_incomes_bulk\<close> and \<open>add_expenses_bulk\<close>, on a stored list.
\<close>

theorem C6_append_defaults:
  assumes "get_incomes s u = Inr (JArr xs)" and "get_expenses s u = Inr (JArr ys)"
  shows "(\<exists>r' s'. add_income s now u r = Inr (r', s')
            \<and> get_incomes s' u = Inr (JArr (xs @ [JObj r']))
            \<and> map_of r' ''id'' = map_of r ''id''
            \<and> map_of r' ''user_id'' = Some (JStr u)
            \<and> map_of r' ''created_at'' =
                Some (case map_of r ''created_at'' of None \<Rightarrow> JStr now | Some v \<Rightarrow> v))
       \<and> (\<exists>r' s'. add_expense s now u r = Inr (r', s')
            \<and> get_expenses s' u = Inr (JArr (ys @ [JObj r']))
            \<and> map_of r' ''id'' = map_of r ''id''
            \<and> map_of r' ''user_id'' = Some (JStr u)
            \<and> map_of r' ''created_at'' =
                Some (case map_of r ''created_at'' of None \<Rightarrow> JStr now | Some v \<Rightarrow> v))
       \<and> (\<exists>rs' s'. add_incomes_bulk s clock u rs = Inr (length rs, s')
            \<and> get_incomes s' u = Inr (JArr (xs @ map JObj rs'))
            \<and> list_all2 (\<lambda>r r'. map_of r' ''id'' = map_of r ''id''
                                \<and> map_of r' ''user_id'' = Some (JStr u)
                                \<and> map_of r' ''created_at'' \<noteq> None
                                \<and> (map_of r ''created_at'' \<noteq> None \<longrightarrow>
                                     map_of r' ''created_at'' = map_of r ''created_at'')) rs rs')
       \<and> (\<exists>rs' s'. add_expenses_bulk s clock u rs = Inr (length rs, s')
            \<and> get_expenses s' u = Inr (JArr (ys @ map JObj rs'))
            \<and> list_all2 (\<lambda>r r'. map_of r' ''id'' = map_of r ''id''
                                \<and> map_of r' ''user_id'' = Some (JStr u)
                                \<and> map_of r' ''created_at'' \<noteq> None
                                \<and> (map_of r ''created_at'' \<noteq> None \<longrightarrow>
                                     map_of r' ''created_at'' = map_of r ''created_at'')) rs rs')"
proof (intro conjI)
  show "\<exists>r' s'. add_income s now u r = Inr (r', s')
            \<and> get_incomes s' u = Inr (JArr (xs @ [JObj r']))
            \<and> map_of r' ''id'' = map_of r ''id''
            \<and> map_of r' ''user_id'' = Some (JStr u)
            \<and> map_of r' ''created_at'' =
                Some (case map_of r ''created_at'' of None \<Rightarrow> JStr now | Some v \<Rightarrow> v)"
    using assms(1)
    by (simp add: add_income_result get_incomes_def load_save_same stamp_id stamp_user_id
          stamp_created_at_value)
  show "\<exists>r' s'. add_expense s now u r = Inr (r', s')
            \<and> get_expenses s' u = Inr (JArr (ys @ [JObj r']))
            \<and> map_of r' ''id'' = map_of r ''id''
            \<and> map_of r' ''user_id'' = Some (JStr u)
            \<and> map_of r' ''created_at'' =
                Some (case map_of r ''created_at'' of None \<Rightarrow> JStr now | Some v \<Rightarrow> v)"
    using assms(2)
    by (simp add: add_expense_result get_expenses_def load_save_same stamp_id stamp_user_id
          stamp_created_at_value)
  from add_incomes_bulk_result [OF assms(1), of clock rs]
  obtain s' where "add_incomes_bulk s clock u rs = Inr (length rs, s')"
    and "get_incomes s' u = Inr (JArr (xs @ map JObj (stamp_all clock u rs)))"
    by (elim exE conjE)
  with stamp_all_stamped [of u rs clock]
  show "\<exists>rs' s'. add_incomes_bulk s clock u rs = Inr (length rs, s')
            \<and> get_incomes s' u = Inr (JArr (xs @ map JObj rs'))
            \<and> list_all2 (\<lambda>r r'. map_of r' ''id'' = map_of r ''id''
                                \<and> map_of r' ''user_id'' = Some (JStr u)
                                \<and> map_of r' ''created_at'' \<noteq> None
                                \<and> (map_of r ''created_at'' \<noteq> None \<longrightarrow>
                                     map_of r' ''created_at'' = map_of r ''created_at'')) rs rs'"
    by (intro exI [of _ "stamp_all clock u rs"] exI [of _ s'] conjI)
  from add_expenses_bulk_result [OF assms(2), of clock rs]
  obtain t' where "add_expenses_bulk s clock u rs = Inr (length rs, t')"
    and "get_expenses t' u = Inr (JArr (ys @ map JObj (stamp_all clock u rs)))"
    by (elim exE conjE)
  with stamp_all_stamped [of u rs clock]
  show "\<exists>rs' s'. add_expenses_bulk s clock u rs = Inr (length rs, s')
            \<and> get_expenses s' u = Inr (JArr (ys @ map JObj rs'))
            \<and> list_all2 (\<lambda>r r'. map_of r' ''id'' = map_of r ''id''
                                \<and> map_of r' ''user_id'' = Some (JStr u)
                                \<and> map_of r' ''created_at'' \<noteq> None
                                \<and> (map_of r ''created_at'' \<noteq> None \<longrightarrow>
                                     map_of r' ''created_at'' = map_of r ''created_at'')) rs rs'"
    by (intro exI [of _ "stamp_all clock u rs"] exI [of _ t'] conjI)
qed

text \<open>
  C6 with an assigned \<open>id\<close> does not hold: a record appended without an \<open>id\<close> is stored and
  returned without one.
\<close>

theorem C6_no_id_assigned:
  "add_income Map.empty ''2026-01-01T00:00:00'' ''u1'' [(''amount'', JNum 5)] =
     Inr ([(''amount'', JNum 5), (''user_id'', JStr ''u1''),
           (''created_at'', JStr ''2026-01-01T00:00:00'')],
          save_data Map.empty ''u1'' ''incomes''
            (JArr [JObj [(''amount'', JNum 5), (''user_id'', JStr ''u1''),
                         (''created_at'', JStr ''2026-01-01T00:00:00'')]]))
   \<and> get_incomes
        (save_data Map.empty ''u1'' ''incomes''
            (JArr [JObj [(''amount'', JNum 5), (''user_id'', JStr ''u1''),
                         (''created_at'', JStr ''2026-01-01T00:00:00'')]])) ''u1'' =
       Inr (JArr [JObj [(''amount'', JNum 5), (''user_id'', JStr ''u1''),
                        (''created_at'', JStr ''2026-01-01T00:00:00'')]])
   \<and> map_of [(''amount'', JNum 5), (''user_id'', JStr ''u1''),
              (''created_at'', JStr ''2026-01-01T00:00:00'')] ''id'' = None"
  by (simp add: add_income_def get_incomes_def load_save_same
        default_created_at_def set_user_id_def Let_def load_data_def [of "Map.empty"])

theorem C6_append_defaults_witness:
  "get_incomes full_store ''u1'' =
     Inr (JArr [JObj [(''id'', JStr ''a''), (''user_id'', JStr ''u1'')],
                JObj [(''id'', JStr ''b''), (''user_id'', JStr ''u1'')]])
   \<and> get_expenses full_store ''u1'' =
       Inr (JArr [JObj [(''id'', JStr ''e''), (''user_id'', JStr ''u1'')]])
   \<and> (\<exists>r' s'. add_income full_store ''2026-01-01T00:00:00'' ''u1'' [(''amount'', JNum 5)]
                  = Inr (r', s')
          \<and> get_incomes s' ''u1'' =
               Inr (JArr [JObj [(''id'', JStr ''a''), (''user_id'', JStr ''u1'')],
                          JObj [(''id'', JStr ''b''), (''user_id'', JStr ''u1'')],
                          JObj r'])
          \<and> map_of r' ''id'' = None
          \<and> map_of r' ''user_id'' = Some (JStr ''u1'')
          \<and> map_of r' ''created_at'' = Some (JStr ''2026-01-01T00:00:00''))"
proof -
  have "\<exists>r' s'. add_income full_store ''2026-01-01T00:00:00'' ''u1'' [(''amount'', JNum 5)]
                  = Inr (r', s')
          \<and> get_incomes s' ''u1'' =
               Inr (JArr [JObj [(''id'', JStr ''a''), (''user_id'', JStr ''u1'')],
                          JObj [(''id'', JStr ''b''), (''user_id'', JStr ''u1'')],
                          JObj r'])
          \<and> map_of r' ''id'' = None
          \<and> map_of r' ''user_id'' = Some (JStr ''u1'')
          \<and> map_of r' ''created_at'' = Some (JStr ''2026-01-01T00:00:00'')"
    using conjunct1 [OF C6_append_defaults [where now = "''2026-01-01T00:00:00''"
          and r = "[(''amount'', JNum 5)]", OF full_store_lists(1,2)]]
    by simp
  with full_store_lists(1,2) show ?thesis
    by (intro conjI)
qed

text \<open>
  C9 does not hold of the code. \<open>_load_data\<close> reads a missing file and a file whose text is
  not JSON as the empty list (\<open>load_data_reads_empty\<close>, \<open>dashboard_patched\<close>), but it catches
  no other exception of the read. When a collection file of one account of the users file
  cannot be read for another reason, such as bytes that are not UTF-8, the reader raises,
  and \<open>get_admin_dashboard\<close> answers with status 500 instead of a summary: the aggregation
  is aborted for every account. With the empty list in that file the same directory gives
  the summary.
\<close>

theorem C9_undecodable_collection_fails:
  assumes "fst (get_all_users_data s) = Some users"
      and "user \<in> set users" and "map_of user ''id'' = Some uid"
      and "t \<in> {''incomes'', ''expenses'', ''rules''}"
      and "s (get_user_file (id_text fmt uid) t) = Some (Unreadable e)"
  shows "load_data s (id_text fmt uid) t = Inl e
       \<and> fst (get_admin_dashboard hash fmt rnd parse thirty ninety ts s) =
           Inl (HTTPException 500 ''Dashboard error'')"
proof
  show "load_data s (id_text fmt uid) t = Inl e"
    using assms(5) by (rule load_data_raises)
  obtain loaded s1 where l: "get_all_users_data s = (loaded, s1)"
    by (cases "get_all_users_data s")
  with assms(1) have lo: "loaded = Some users"
    by simp
  from l have s1: "s1 = ensure_data_dir s"
    using get_all_users_data_snd [of s] by simp
  from assms(5) have "s1 (get_user_file (id_text fmt uid) t) = Some (Unreadable e)"
    by (simp add: s1 ensure_keeps_collections)
  with assms(3,4) have "\<And>a. dashboard_user hash fmt rnd parse thirty ninety s1 user a = None"
    by (rule dashboard_user_raises)
  with assms(2) have "for_each (dashboard_user hash fmt rnd parse thirty ninety s1) users
                        \<lparr>total_income = 0, total_expenses = 0, active_users_30d = 0,
                         low_income_alerts = [], large_transactions = [], rule_usage = []\<rparr> = None"
    by (rule for_each_fails)
  then show "fst (get_admin_dashboard hash fmt rnd parse thirty ninety ts s) =
           Inl (HTTPException 500 ''Dashboard error'')"
    by (simp add: get_admin_dashboard_def l lo)
qed

theorem C9_undecodable_collection_fails_witness:
  "fst (get_all_users_data undecodable_store) =
     Some [[(''id'', JStr ''uid1''), (''email'', JStr ''new.user@gmail.com''),
            (''created_at'', JStr [])]]
   \<and> [(''id'', JStr ''uid1''), (''email'', JStr ''new.user@gmail.com''), (''created_at'', JStr [])]
       \<in> set [[(''id'', JStr ''uid1''), (''email'', JStr ''new.user@gmail.com''),
                (''created_at'', JStr [])]]
   \<and> map_of [(''id'', JStr ''uid1''), (''email'', JStr ''new.user@gmail.com''),
              (''created_at'', JStr [])] ''id'' = Some (JStr ''uid1'')
   \<and> ''incomes'' \<in> {''incomes'', ''expenses'', ''rules''}
   \<and> undecodable_store (get_user_file (id_text (\<lambda>x. []) (JStr ''uid1'')) ''incomes'') =
       Some (Unreadable UnicodeDecodeError)
   \<and> fst (get_admin_dashboard (\<lambda>x. 42) (\<lambda>x. []) (\<lambda>x. x) (\<lambda>x. None) ''2025-12-05T00:00:00''
          ''2025-10-06T00:00:00'' ''2026-01-04T00:00:00'' undecodable_store) =
       Inl (HTTPException 500 ''Dashboard error'')
   \<and> fst (get_admin_dashboard (\<lambda>x. 42) (\<lambda>x. []) (\<lambda>x. x) (\<lambda>x. None) ''2025-12-05T00:00:00''
          ''2025-10-06T00:00:00'' ''2026-01-04T00:00:00'' emptied_store) =
       Inr [(''summary'',
               JObj [(''total_users'', JNum 1), (''active_users_30d'', JNum 0),
                     (''total_income'', JNum 0), (''total_expenses'', JNum 0),
                     (''total_savings'', JNum 0)]),
            (''income_trends'', JArr []), (''low_income_alerts'', JArr []),
            (''large_transactions'', JArr []), (''rule_usage'', JArr []),
            (''timestamp'', JStr ''2026-01-04T00:00:00'')]"
proof -
  have h1: "fst (get_all_users_data undecodable_store) =
     Some [[(''id'', JStr ''uid1''), (''email'', JStr ''new.user@gmail.com''),
            (''created_at'', JStr [])]]"
    by (simp add: undecodable_users)
  have h2: "[(''id'', JStr ''uid1''), (''email'', JStr ''new.user@gmail.com''), (''created_at'', JStr [])]
       \<in> set [[(''id'', JStr ''uid1''), (''email'', JStr ''new.user@gmail.com''),
                (''created_at'', JStr [])]]"
    by simp
  have h3: "map_of [(''id'', JStr ''uid1''), (''email'', JStr ''new.user@gmail.com''),
              (''created_at'', JStr [])] ''id'' = Some (JStr ''uid1'')"
    by simp
  have h4: "''incomes'' \<in> {''incomes'', ''expenses'', ''rules''}"
    by simp
  have h5: "undecodable_store (get_user_file (id_text (\<lambda>x. []) (JStr ''uid1'')) ''incomes'') =
       Some (Unreadable UnicodeDecodeError)"
    by (simp add: undecodable_store_def id_text_def)
  have c: "fst (get_admin_dashboard (\<lambda>x. 42) (\<lambda>x. []) (\<lambda>x. x) (\<lambda>x. None) ''2025-12-05T00:00:00''
          ''2025-10-06T00:00:00'' ''2026-01-04T00:00:00'' undecodable_store) =
       Inl (HTTPException 500 ''Dashboard error'')"
    by (rule conjunct2 [OF C9_undecodable_collection_fails [OF h1 h2 h3 h4 h5]])
  from h1 h2 h3 h4 h5 c emptied_dashboard show ?thesis
    by (intro conjI)
qed

text \<open>
  C10. Every append (\<open>add_income\<close>, \<open>add_expense\<close>) and bulk append (\<open>add_incomes_bulk\<close>,
  \<open>add_expenses_bulk\<close>) on a stored list writes the partition key into \<open>user_id\<close> of each
  record it adds, whatever \<open>user_id\<close> the input carried. Hence, if every record listed
  under the partition was owned by it before, every record listed after is.
\<close>

theorem C10_user_id_overwritten:
  assumes "get_incomes s u = Inr (JArr xs)" and "get_expenses s u = Inr (JArr ys)"
  shows "(\<exists>r' s'. add_income s now u r = Inr (r', s')
            \<and> map_of r' ''user_id'' = Some (JStr u)
            \<and> get_incomes s' u = Inr (JArr (xs @ [JObj r']))
            \<and> (list_all (owned_by u) xs \<longrightarrow> list_all (owned_by u) (xs @ [JObj r'])))
       \<and> (\<exists>r' s'. add_expense s now u r = Inr (r', s')
            \<and> map_of r' ''user_id'' = Some (JStr u)
            \<and> get_expenses s' u = Inr (JArr (ys @ [JObj r']))
            \<and> (list_all (owned_by u) ys \<longrightarrow> list_all (owned_by u) (ys @ [JObj r'])))
       \<and> (\<exists>rs' s'. add_incomes_bulk s clock u rs = Inr (length rs, s')
            \<and> get_incomes s' u = Inr (JArr (xs @ map JObj rs'))
            \<and> length rs' = length rs
            \<and> list_all (owned_by u) (map JObj rs')
            \<and> (list_all (owned_by u) xs \<longrightarrow> list_all (owned_by u) (xs @ map JObj rs')))
       \<and> (\<exists>rs' s'. add_expenses_bulk s clock u rs = Inr (length rs, s')
            \<and> get_expenses s' u = Inr (JArr (ys @ map JObj rs'))
            \<and> length rs' = length rs
            \<and> list_all (owned_by u) (map JObj rs')
            \<and> (list_all (owned_by u) ys \<longrightarrow> list_all (owned_by u) (ys @ map JObj rs')))"
proof (intro conjI)
  show "\<exists>r' s'. add_income s now u r = Inr (r', s')
            \<and> map_of r' ''user_id'' = Some (JStr u)
            \<and> get_incomes s' u = Inr (JArr (xs @ [JObj r']))
            \<and> (list_all (owned_by u) xs \<longrightarrow> list_all (owned_by u) (xs @ [JObj r']))"
    using assms(1)
    by (simp add: add_income_result get_incomes_def load_save_same stamp_user_id)
  show "\<exists>r' s'. add_expense s now u r = Inr (r', s')
            \<and> map_of r' ''user_id'' = Some (JStr u)
            \<and> get_expenses s' u = Inr (JArr (ys @ [JObj r']))
            \<and> (list_all (owned_by u) ys \<longrightarrow> list_all (owned_by u) (ys @ [JObj r']))"
    using assms(2)
    by (simp add: add_expense_result get_expenses_def load_save_same stamp_user_id)
  from add_incomes_bulk_result [OF assms(1), of clock rs]
  obtain s' where "add_incomes_bulk s clock u rs = Inr (length rs, s')"
    and "get_incomes s' u = Inr (JArr (xs @ map JObj (stamp_all clock u rs)))"
    by (elim exE conjE)
  moreover have "list_all (owned_by u) xs \<longrightarrow>
                  list_all (owned_by u) (xs @ map JObj (stamp_all clock u rs))"
    using stamp_all_owned [of u clock rs] by simp
  ultimately
  show "\<exists>rs' s'. add_incomes_bulk s clock u rs = Inr (length rs, s')
            \<and> get_incomes s' u = Inr (JArr (xs @ map JObj rs'))
            \<and> length rs' = length rs
            \<and> list_all (owned_by u) (map JObj rs')
            \<and> (list_all (owned_by u) xs \<longrightarrow> list_all (owned_by u) (xs @ map JObj rs'))"
    using stamp_all_owned [of u clock rs] length_stamp_all [of clock u rs]
    by (intro exI [of _ "stamp_all clock u rs"] exI [of _ s'] conjI)
  from add_expenses_bulk_result [OF assms(2), of clock rs]
  obtain s' where "add_expenses_bulk s clock u rs = Inr (length rs, s')"
    and "get_expenses s' u = Inr (JArr (ys @ map JObj (stamp_all clock u rs)))"
    by (elim exE conjE)
  moreover have "list_all (owned_by u) ys \<longrightarrow>
                  list_all (owned_by u) (ys @ map JObj (stamp_all clock u rs))"
    using stamp_all_owned [of u clock rs] by simp
  ultimately
  show "\<exists>rs' s'. add_expenses_bulk s clock u rs = Inr (length rs, s')
            \<and> get_expenses s' u = Inr (JArr (ys @ map JObj rs'))
            \<and> length rs' = length rs
            \<and> list_all (owned_by u) (map JObj rs')
            \<and> (list_all (owned_by u) ys \<longrightarrow> list_all (owned_by u) (ys @ map JObj rs'))"
    using stamp_all_owned [of u clock rs] length_stamp_all [of clock u rs]
    by (intro exI [of _ "stamp_all clock u rs"] exI [of _ s'] conjI)
qed

theorem C10_user_id_overwritten_witness:
  "get_incomes demo_store ''u1'' =
     Inr (JArr [JObj [(''id'', JStr ''a''), (''user_id'', JStr ''u1'')],
           JObj [(''id'', JStr ''b''), (''user_id'', JStr ''u1'')]])
   \<and> get_expenses demo_store ''u1'' = Inr (JArr [JObj [(''id'', JStr ''e''), (''user_id'', JStr ''u1'')]])
   \<and> (\<exists>r' s'. add_income demo_store ''2026-01-01T00:00:00'' ''u1''
                  [(''id'', JStr ''c''), (''user_id'', JStr ''someone-else'')] = Inr (r', s')
          \<and> map_of r' ''user_id'' = Some (JStr ''u1'')
          \<and> get_incomes s' ''u1'' =
               Inr (JArr [JObj [(''id'', JStr ''a''), (''user_id'', JStr ''u1'')],
                     JObj [(''id'', JStr ''b''), (''user_id'', JStr ''u1'')], JObj r'])
          \<and> list_all (owned_by ''u1'')
               [JObj [(''id'', JStr ''a''), (''user_id'', JStr ''u1'')],
                JObj [(''id'', JStr ''b''), (''user_id'', JStr ''u1'')], JObj r'])"
proof -
  have "\<exists>r' s'. add_income demo_store ''2026-01-01T00:00:00'' ''u1''
                  [(''id'', JStr ''c''), (''user_id'', JStr ''someone-else'')] = Inr (r', s')
          \<and> map_of r' ''user_id'' = Some (JStr ''u1'')
          \<and> get_incomes s' ''u1'' =
               Inr (JArr [JObj [(''id'', JStr ''a''), (''user_id'', JStr ''u1'')],
                     JObj [(''id'', JStr ''b''), (''user_id'', JStr ''u1'')], JObj r'])
          \<and> list_all (owned_by ''u1'')
               [JObj [(''id'', JStr ''a''), (''user_id'', JStr ''u1'')],
                JObj [(''id'', JStr ''b''), (''user_id'', JStr ''u1'')], JObj r']"
    using conjunct1 [OF C10_user_id_overwritten [where now = "''2026-01-01T00:00:00''"
          and r = "[(''id'', JStr ''c''), (''user_id'', JStr ''someone-else'')]",
          OF demo_incomes demo_expenses]]
    by simp
  with demo_incomes demo_expenses show ?thesis
    by (intro conjI)
qed

text \<open>
  C7. The specification asks that an account that owns a stored record has
  \<open>is_new_account = False\<close>. The code does not do that: \<open>create_income\<close> only calls
  \<open>add_income\<close>, which writes the collection file, and nothing calls
  \<open>mark_account_active\<close>. Evaluated here: sign up on an empty directory, resolve the
  signup token, create a first income. The account then owns one income and its stored
  record still has \<open>is_new_account = True\<close>.
\<close>

theorem C7_flag_stays_after_first_income:
  "\<exists>res user r s2 kvs acct.
     signup toy_kdf Map.empty ''uid1'' ''salt1'' token_one ''2026-01-01T00:00:00''
       ''new.user@gmail.com'' ''secret1'' ''New User'' = (Inr res, registered_store)
     \<and> fst (get_current_user registered_store (Some token_one)) = Inr user
     \<and> create_income registered_store ''inc-1'' ''2026-01-02T00:00:00'' demo_income_body user
         = Inr (r, s2)
     \<and> get_incomes s2 ''uid1'' = Inr (JArr [JObj r])
     \<and> fst (load_users s2) = Inr (JObj kvs)
     \<and> map_of kvs ''new.user@gmail.com'' = Some (JObj acct)
     \<and> map_of acct ''is_new_account'' = Some (JBool True)"
proof -
  let ?em = "''new.user@gmail.com''"
  let ?acct = "[(''id'', JStr ''uid1''), (''email'', JStr ?em),
                (''full_name'', JStr (py_strip ''New User'')),
                (''password_hash'', JStr (toy_kdf ''secret1'' ''salt1'')),
                (''password_salt'', JStr ''salt1''),
                (''created_at'', JStr ''2026-01-01T00:00:00''),
                (''is_new_account'', JBool True)]"
  let ?tks = "AList.update token_one (JStr ?em) []"
  let ?s1 = "save_users (save_tokens (ensure_data_dir Map.empty) (JObj ?tks))
               (JObj (AList.update ?em (JObj ?acct) []))"
  let ?res = "[(''access_token'', JStr token_one),
               (''user'', JObj [(''id'', JStr ''uid1''), (''email'', JStr ?em),
                                (''full_name'', JStr (py_strip ''New User'')),
                                (''isNewAccount'', JBool True)]),
               (''message'', JStr ''Account created successfully'')]"
  let ?user = "[(''id'', JStr ''uid1''), (''email'', JStr ?em),
                (''full_name'', dict_get ?acct ''full_name'' (JStr ''User'')),
                (''is_demo'', JBool False),
                (''is_new_account'', dict_get ?acct ''is_new_account'' (JBool False)),
                (''is_admin'', dict_get ?acct ''is_admin'' (JBool False))]"
  let ?rec0 = "[(''id'', JStr ''inc-1''), (''user_id'', JStr ''uid1''),
                (''amount'', JNum (amount demo_income_body)),
                (''source_name'', JStr (source_name demo_income_body)),
                (''category'', JStr (category demo_income_body)),
                (''date'', JStr (date demo_income_body)),
                (''description'',
                   (case description demo_income_body of None \<Rightarrow> JNull | Some d \<Rightarrow> JStr d)),
                (''created_at'', JStr ''2026-01-02T00:00:00'')]"
  let ?r = "default_created_at ''2026-01-02T00:00:00'' (set_user_id ''uid1'' ?rec0)"
  let ?s2 = "save_data ?s1 ''uid1'' ''incomes'' (JArr ([] @ [JObj ?r]))"
  have v: "validate_email (py_strip (py_lower ?em)) = (True, [])"
    by (simp only: demo_email_fixed demo_email_valid)
  have fresh: "map_of [] (py_strip (py_lower ?em)) = (None :: jval option)"
    by simp
  have "signup toy_kdf Map.empty ''uid1'' ''salt1'' token_one ''2026-01-01T00:00:00''
          ?em ''secret1'' ''New User'' =
        (Inr [(''access_token'', JStr token_one),
               (''user'', JObj [(''id'', JStr ''uid1''),
                                (''email'', JStr (py_strip (py_lower ?em))),
                                (''full_name'', JStr (py_strip ''New User'')),
                                (''isNewAccount'', JBool True)]),
               (''message'', JStr ''Account created successfully'')],
         save_users
           (save_tokens (ensure_data_dir Map.empty)
              (JObj (AList.update token_one (JStr (py_strip (py_lower ?em))) [])))
           (JObj (AList.update (py_strip (py_lower ?em))
              (JObj [(''id'', JStr ''uid1''),
                     (''email'', JStr (py_strip (py_lower ?em))),
                     (''full_name'', JStr (py_strip ''New User'')),
                     (''password_hash'', JStr (toy_kdf ''secret1'' ''salt1'')),
                     (''password_salt'', JStr ''salt1''),
                     (''created_at'', JStr ''2026-01-01T00:00:00''),
                     (''is_new_account'', JBool True)]) [])))"
    by (rule signup_ok [OF v _ demo_name_length empty_users fresh empty_tokens]) simp
  then have su: "signup toy_kdf Map.empty ''uid1'' ''salt1'' token_one ''2026-01-01T00:00:00''
          ?em ''secret1'' ''New User'' = (Inr ?res, ?s1)"
    by (simp only: demo_email_fixed)
  then have rs: "registered_store = ?s1"
    by (simp only: registered_store_def snd_conv)
  have users1: "fst (load_users ?s1) = Inr (JObj (AList.update ?em (JObj ?acct) []))"
    by (simp only: load_users_save_users fst_conv)
  have tokens1: "load_tokens ?s1 = Inr (JObj ?tks)"
    by (simp only: load_tokens_save_users load_tokens_save_tokens)
  have "get_current_user ?s1 (Some token_one) = (Inr ?user, ensure_data_dir ?s1)"
  proof (rule get_current_user_ok [OF _ tokens1 _ _ users1])
    show "20 < length token_one" by (simp add: token_one_def)
    show "map_of ?tks token_one = Some (JStr ?em)" by simp
    show "?em \<noteq> []" by simp
    show "map_of (AList.update ?em (JObj ?acct) []) ?em = Some (JObj ?acct)" by simp
    show "?acct \<noteq> []" by simp
    show "map_of ?acct ''id'' = Some (JStr ''uid1'')" by simp
  qed
  then have resolved: "fst (get_current_user ?s1 (Some token_one)) = Inr ?user"
    by (simp only: fst_conv)
  have none: "get_incomes ?s1 ''uid1'' = Inr (JArr [])"
    by (simp only: get_incomes_def load_data_save_users load_data_save_tokens load_data_ensure
          empty_incomes [unfolded get_incomes_def])
  have "create_income ?s1 ''inc-1'' ''2026-01-02T00:00:00'' demo_income_body ?user =
          add_income ?s1 ''2026-01-02T00:00:00'' ''uid1'' ?rec0"
    by (simp add: create_income_def)
  also have "\<dots> = Inr (?r, ?s2)"
    using none by (rule add_income_result)
  finally have created: "create_income ?s1 ''inc-1'' ''2026-01-02T00:00:00'' demo_income_body
                           ?user = Inr (?r, ?s2)" .
  have listed: "get_incomes ?s2 ''uid1'' = Inr (JArr [JObj ?r])"
    by (simp add: get_incomes_def load_save_same)
  have users2: "fst (load_users ?s2) = Inr (JObj (AList.update ?em (JObj ?acct) []))"
    using users1 by (simp only: load_users_save_data)
  have acct: "map_of (AList.update ?em (JObj ?acct) []) ?em = Some (JObj ?acct)"
    by simp
  have flag: "map_of ?acct ''is_new_account'' = Some (JBool True)"
    by simp
  from su resolved created listed users2 acct flag show ?thesis
    unfolding rs by (intro exI conjI)
qed

text \<open>
  C8. For a user who is not the demo user, whose stored goals all satisfy
  \<open>0 \<le> current_amount \<le> target_amount\<close>, and a contribution \<open>amt > 0\<close> to the goal with the
  given id: \<open>add_money\<close> succeeds, the returned goal has
  \<open>current_amount = min (current_amount + amt) target_amount\<close> and its target unchanged, so
  the new amount is between 0 and the target, and the goals stored afterwards again all
  satisfy the bounds. The same holds for the demo user on the in-memory goals, where the
  goal is the one with the given id and the demo user's id.
\<close>

theorem C8_contribution_clamped:
  assumes "\<not> truthy (case map_of user ''is_demo'' of None \<Rightarrow> JNull | Some v \<Rightarrow> v)"
      and "map_of user ''id'' = Some (JStr uid)"
      and "get_goals s uid = Inr (JArr gs)" and "list_all goal_ok gs"
      and "find (has_id gid) gs = Some (JObj g)"
      and "map_of g ''current_amount'' = Some (JNum c)"
      and "map_of g ''target_amount'' = Some (JNum t)"
      and "0 < amt"
  shows "(\<exists>g' s' gs'. add_money s demo gid amt user = Inr (g', s', demo)
           \<and> map_of g' ''current_amount'' = Some (JNum (min (c + amt) t))
           \<and> map_of g' ''target_amount'' = Some (JNum t)
           \<and> 0 \<le> min (c + amt) t \<and> min (c + amt) t \<le> t
           \<and> get_goals s' uid = Inr (JArr gs') \<and> length gs' = length gs
           \<and> list_all goal_ok gs' \<and> JObj g' \<in> set gs')
       \<and> (truthy (case map_of duser ''is_demo'' of None \<Rightarrow> JNull | Some v \<Rightarrow> v)
            \<and> map_of duser ''id'' = Some duid
            \<and> list_all goal_ok dgs \<and> list_all has_owner dgs
            \<and> find (demo_match gid duid) dgs = Some (JObj dg)
            \<and> map_of dg ''current_amount'' = Some (JNum dc)
            \<and> map_of dg ''target_amount'' = Some (JNum dt) \<longrightarrow>
           (\<exists>g' gs'. add_money s dgs gid amt duser = Inr (g', s, gs')
              \<and> map_of g' ''current_amount'' = Some (JNum (min (dc + amt) dt))
              \<and> map_of g' ''target_amount'' = Some (JNum dt)
              \<and> length gs' = length dgs \<and> list_all goal_ok gs' \<and> JObj g' \<in> set gs'))"
proof (intro conjI impI)
  let ?g' = "AList.update ''current_amount'' (JNum (min (c + amt) t)) g"
  from find_and_add_ok [OF assms(4,5,6,7,8)]
  obtain gs' where f: "find_and_add gid amt gs = Inr (Some (?g', gs'))"
    and len: "length gs' = length gs" and ok: "list_all goal_ok gs'"
    and mem: "JObj ?g' \<in> set gs'"
    by (elim exE conjE)
  have run: "add_money s demo gid amt user = Inr (?g', save_goals s uid (JArr gs'), demo)"
    using assms(1,2,3) f by (simp add: add_money_def)
  have listed: "get_goals (save_goals s uid (JArr gs')) uid = Inr (JArr gs')"
    by (simp add: get_goals_def save_goals_def load_save_same)
  have cur: "map_of ?g' ''current_amount'' = Some (JNum (min (c + amt) t))"
    by (simp add: update_conv')
  have tgt: "map_of ?g' ''target_amount'' = Some (JNum t)"
    using assms(7) by (simp add: update_conv')
  have "JObj g \<in> set gs"
    using assms(5) by (rule find_in_set)
  with assms(4) have "goal_ok (JObj g)"
    unfolding list_all_iff by (rule bspec)
  with assms(6,7) have "0 \<le> c" and "c \<le> t"
    by (auto simp: goal_ok_dict simp del: goal_ok.simps(1))
  with assms(8) have bounds: "0 \<le> min (c + amt) t" "min (c + amt) t \<le> t"
    by simp_all
  from run cur tgt bounds listed len ok mem
  show "\<exists>g' s' gs'. add_money s demo gid amt user = Inr (g', s', demo)
           \<and> map_of g' ''current_amount'' = Some (JNum (min (c + amt) t))
           \<and> map_of g' ''target_amount'' = Some (JNum t)
           \<and> 0 \<le> min (c + amt) t \<and> min (c + amt) t \<le> t
           \<and> get_goals s' uid = Inr (JArr gs') \<and> length gs' = length gs
           \<and> list_all goal_ok gs' \<and> JObj g' \<in> set gs'"
    by (intro exI [of _ ?g'] exI [of _ "save_goals s uid (JArr gs')"] exI [of _ gs'] conjI)
next
  assume "truthy (case map_of duser ''is_demo'' of None \<Rightarrow> JNull | Some v \<Rightarrow> v)
            \<and> map_of duser ''id'' = Some duid
            \<and> list_all goal_ok dgs \<and> list_all has_owner dgs
            \<and> find (demo_match gid duid) dgs = Some (JObj dg)
            \<and> map_of dg ''current_amount'' = Some (JNum dc)
            \<and> map_of dg ''target_amount'' = Some (JNum dt)"
  then show "\<exists>g' gs'. add_money s dgs gid amt duser = Inr (g', s, gs')
              \<and> map_of g' ''current_amount'' = Some (JNum (min (dc + amt) dt))
              \<and> map_of g' ''target_amount'' = Some (JNum dt)
              \<and> length gs' = length dgs \<and> list_all goal_ok gs' \<and> JObj g' \<in> set gs'"
    using assms(8) by (elim conjE) (rule add_money_demo_clamped)
qed

theorem C8_contribution_clamped_witness:
  "\<not> truthy (case map_of demo_identity ''is_demo'' of None \<Rightarrow> JNull | Some v \<Rightarrow> v)
   \<and> map_of demo_identity ''id'' = Some (JStr ''u1'')
   \<and> get_goals goal_store ''u1'' = Inr (JArr [JObj demo_goal])
   \<and> list_all goal_ok [JObj demo_goal]
   \<and> find (has_id ''g1'') [JObj demo_goal] = Some (JObj demo_goal)
   \<and> map_of demo_goal ''current_amount'' = Some (JNum 0)
   \<and> map_of demo_goal ''target_amount'' = Some (JNum 1000)
   \<and> (0::real) < 1500
   \<and> (\<exists>g' s'. add_money goal_store [] ''g1'' 1500 demo_identity = Inr (g', s', [])
         \<and> map_of g' ''current_amount'' = Some (JNum 1000)
         \<and> get_goals s' ''u1'' = Inr (JArr [JObj g']))"
proof -
  have h1: "\<not> truthy (case map_of demo_identity ''is_demo'' of None \<Rightarrow> JNull | Some v \<Rightarrow> v)"
    by (simp add: demo_identity_def)
  have h2: "map_of demo_identity ''id'' = Some (JStr ''u1'')"
    by (simp add: demo_identity_def)
  have h3: "get_goals goal_store ''u1'' = Inr (JArr [JObj demo_goal])"
    by (simp add: goal_store_def get_goals_def save_goals_def load_save_same)
  have h4: "list_all goal_ok [JObj demo_goal]"
    by (simp add: demo_goal_def num_field_def)
  have h5: "find (has_id ''g1'') [JObj demo_goal] = Some (JObj demo_goal)"
    by (simp add: demo_goal_def)
  have h6: "map_of demo_goal ''current_amount'' = Some (JNum 0)"
    by (simp add: demo_goal_def)
  have h7: "map_of demo_goal ''target_amount'' = Some (JNum 1000)"
    by (simp add: demo_goal_def)
  have h8: "(0::real) < 1500"
    by simp
  from conjunct1 [OF C8_contribution_clamped [where demo = "[]", OF h1 h2 h3 h4 h5 h6 h7 h8]]
  obtain g' s' gs' where
    a: "add_money goal_store [] ''g1'' 1500 demo_identity = Inr (g', s', [])"
    and b: "map_of g' ''current_amount'' = Some (JNum (min (0 + 1500) 1000))"
    and c: "get_goals s' ''u1'' = Inr (JArr gs')" and d: "length gs' = length [JObj demo_goal]"
    and e: "JObj g' \<in> set gs'"
    by (elim exE conjE)
  from d e have "gs' = [JObj g']"
    by (cases gs') simp_all
  with a b c have "add_money goal_store [] ''g1'' 1500 demo_identity = Inr (g', s', [])
         \<and> map_of g' ''current_amount'' = Some (JNum 1000)
         \<and> get_goals s' ''u1'' = Inr (JArr [JObj g'])"
    by simp
  then have "\<exists>g' s'. add_money goal_store [] ''g1'' 1500 demo_identity = Inr (g', s', [])
         \<and> map_of g' ''current_amount'' = Some (JNum 1000)
         \<and> get_goals s' ''u1'' = Inr (JArr [JObj g'])"
    by (intro exI)
  with h1 h2 h3 h4 h5 h6 h7 h8 show ?thesis
    by (intro conjI)
qed

end
